theory Spec2Isabelle
  imports Complex_Main
begin

section \<open>EcoCommute: the ride coordination core of \<^verbatim>\<open>rides/models.py\<close> and \<^verbatim>\<open>rides/views.py\<close>\<close>

text \<open>
  The Django views are embedded as functions from a database state and a request to a
  response and the new database state. Conventions:
  \<^item> every view below is behind \<^verbatim>\<open>@login_required\<close>; a request therefore carries the
    authenticated user (\<open>req_user\<close>), an anonymous request never reaches the view body;
  \<^item> \<^verbatim>\<open>messages.info/success/warning/error\<close> followed by \<^verbatim>\<open>redirect\<close> or \<^verbatim>\<open>render\<close> is a
    response carrying the flashed message; emoji at the start of a message text are left out;
  \<^item> \<^verbatim>\<open>get_object_or_404\<close> outside a \<^verbatim>\<open>try\<close> is the response \<open>Http404\<close>; inside
    \<^verbatim>\<open>try: ... except Exception\<close> the raised \<^verbatim>\<open>Http404\<close> is caught and becomes a JSON 500;
  \<^item> a Python \<^verbatim>\<open>float\<close> is idealised by the rational number it denotes (no rounding, no
    \<^verbatim>\<open>inf\<close> or \<^verbatim>\<open>nan\<close>), an integer column holds any integer;
  \<^item> the builtins \<^verbatim>\<open>int()\<close>, \<^verbatim>\<open>float()\<close> and \<^verbatim>\<open>datetime.strptime\<close> are parameters
    (\<open>builtins\<close>): \<open>None\<close> stands for the \<^verbatim>\<open>ValueError\<close> they raise;
  \<^item> the columns \<^verbatim>\<open>created_at\<close>, \<^verbatim>\<open>joined_at\<close>, \<^verbatim>\<open>updated_at\<close> and the outgoing
    e-mail of \<^verbatim>\<open>join_ride\<close> (sent with \<^verbatim>\<open>fail_silently\<close>, exceptions swallowed) are left out:
    no view branches on them.
\<close>

subsection \<open>Strings\<close>

text \<open>Characters are code points below 256. \<^verbatim>\<open>str.isspace\<close> on that range.\<close>

definition isspace :: "char \<Rightarrow> bool" where
  "isspace c = ((of_char c :: nat) \<in> {9, 10, 11, 12, 13, 28, 29, 30, 31, 32, 133, 160})"

definition strip :: "string \<Rightarrow> string" where
  "strip s = rev (dropWhile isspace (rev (dropWhile isspace s)))"

text \<open>
  \<^verbatim>\<open>str.upper\<close> and \<^verbatim>\<open>str.lower\<close> on ASCII letters; other characters are kept. Python
  also maps the letters above 127 (some to two characters or to code points above 255),
  which is not modelled: \<open>upper\<close> only touches the stored vehicle number, \<open>lower\<close> only the
  comparison of \<^verbatim>\<open>is_sharing\<close> with \<^verbatim>\<open>'true'\<close>.
\<close>

definition upper_char :: "char \<Rightarrow> char" where
  "upper_char c = (let n = (of_char c :: nat) in if 97 \<le> n \<and> n \<le> 122 then char_of (n - 32) else c)"

definition lower_char :: "char \<Rightarrow> char" where
  "lower_char c = (let n = (of_char c :: nat) in if 65 \<le> n \<and> n \<le> 90 then char_of (n + 32) else c)"

definition upper :: "string \<Rightarrow> string" where
  "upper s = map upper_char s"

definition lower :: "string \<Rightarrow> string" where
  "lower s = map lower_char s"

subsection \<open>Data model (\<^verbatim>\<open>rides/models.py\<close>)\<close>

type_synonym user_id = int
type_synonym ride_id = int

definition EMISSION_FACTORS :: "(string \<times> int) list" where
  "EMISSION_FACTORS = [(''car_petrol'', 120), (''bike'', 0)]"

text \<open>\<^verbatim>\<open>STATUS_CHOICES\<close>; the code only ever stores these three values.\<close>

datatype status = Created | Started | Completed

record user_profile =
  aadhaar_verified :: bool

record ride =
  from_location :: string
  to_location :: string
  ride_date :: nat
  ride_time :: nat
  vehicle_type :: string
  vehicle_number :: string
  distance_km :: rat
  total_seats :: int
  seats_available :: int
  creator :: user_id
  driver_started :: bool
  passenger_started :: bool
  driver_ended :: bool
  passenger_ended :: bool
  ride_status :: status

record ride_passenger =
  rp_user :: user_id
  rp_ride :: ride_id
  pickup_point :: string
  pickup_notes :: string

record live_location =
  ll_ride :: ride_id
  latitude :: rat
  longitude :: rat
  is_sharing :: bool

text \<open>
  The database: one map per table with a primary or one-to-one key (\<open>users\<close> gives the
  e-mail address, \<open>profiles\<close> and \<open>live_locations\<close> are keyed by their \<^verbatim>\<open>OneToOneField\<close>
  user), the join table as a list in primary-key order, and the next ride id of the
  autoincrement column.
\<close>

record db =
  users :: "user_id \<rightharpoonup> string"
  profiles :: "user_id \<rightharpoonup> user_profile"
  rides :: "ride_id \<rightharpoonup> ride"
  next_ride_id :: ride_id
  passengers :: "ride_passenger list"
  live_locations :: "user_id \<rightharpoonup> live_location"

record request =
  req_user :: user_id
  req_method :: string
  POST :: "string \<rightharpoonup> string"

record builtins =
  py_int :: "string \<Rightarrow> int option"
  py_float :: "string \<Rightarrow> rat option"
  strptime :: "string \<Rightarrow> string \<Rightarrow> nat option"

datatype level = Info | Success | Warning | Error

datatype response =
    Redirect string "(level \<times> string) option"
  | Render string "(level \<times> string) option"
  | JsonError nat string
  | JsonLocationUpdated rat rat
  | JsonLocation user_id string rat rat
  | Http404
  | HttpResponseNotAllowed
  | ServerError

text \<open>\<^verbatim>\<open>Ride.save\<close>: the vehicle number is stored in upper case.\<close>

definition save :: "ride \<Rightarrow> ride" where
  "save r = (if vehicle_number r \<noteq> [] then r\<lparr>vehicle_number := upper (vehicle_number r)\<rparr> else r)"

text \<open>\<^verbatim>\<open>Ride.occupant_count\<close>\<close>

definition occupant_count :: "ride \<Rightarrow> int" where
  "occupant_count r = (let used_seats = total_seats r - seats_available r in max used_seats 1)"

text \<open>\<^verbatim>\<open>Ride.check_and_update_status\<close>: the returned string and the saved ride.\<close>

definition check_and_update_status :: "ride \<Rightarrow> status option \<times> ride" where
  "check_and_update_status r =
     (if driver_started r \<and> passenger_started r \<and> ride_status r = Created
      then (Some Started, save (r\<lparr>ride_status := Started\<rparr>))
      else if driver_ended r \<and> passenger_ended r \<and> ride_status r = Started
      then (Some Completed, save (r\<lparr>ride_status := Completed\<rparr>))
      else (None, r))"

subsection \<open>Queries\<close>

text \<open>\<^verbatim>\<open>RidePassenger.objects.filter(ride=ride, user=user)\<close>, \<^verbatim>\<open>.exists()\<close> and \<^verbatim>\<open>.first()\<close>.\<close>

definition is_rp :: "ride_id \<Rightarrow> user_id \<Rightarrow> ride_passenger \<Rightarrow> bool" where
  "is_rp rid u p = (rp_ride p = rid \<and> rp_user p = u)"

definition passenger_exists :: "db \<Rightarrow> ride_id \<Rightarrow> user_id \<Rightarrow> bool" where
  "passenger_exists d rid u = (filter (is_rp rid u) (passengers d) \<noteq> [])"

definition passenger_first :: "db \<Rightarrow> ride_id \<Rightarrow> user_id \<Rightarrow> ride_passenger option" where
  "passenger_first d rid u =
     (case filter (is_rp rid u) (passengers d) of [] \<Rightarrow> None | p # _ \<Rightarrow> Some p)"

text \<open>\<^verbatim>\<open>passenger.delete()\<close> removes the one row that \<^verbatim>\<open>.first()\<close> returned.\<close>

fun delete_first :: "('a \<Rightarrow> bool) \<Rightarrow> 'a list \<Rightarrow> 'a list" where
  "delete_first P [] = []"
| "delete_first P (x # xs) = (if P x then xs else x # delete_first P xs)"

text \<open>\<^verbatim>\<open>ride.passengers.count()\<close>\<close>

definition passenger_count :: "db \<Rightarrow> ride_id \<Rightarrow> nat" where
  "passenger_count d rid = length (filter (\<lambda>p. rp_ride p = rid) (passengers d))"

subsection \<open>Emission calculator (\<^verbatim>\<open>calculate_co2\<close>)\<close>

definition calculate_co2 :: "rat \<Rightarrow> string \<Rightarrow> int \<Rightarrow> rat \<times> rat \<times> rat" where
  "calculate_co2 distance vtype occupants =
     (let factor = (case map_of EMISSION_FACTORS vtype of
                      Some f \<Rightarrow> f
                    | None \<Rightarrow> the (map_of EMISSION_FACTORS ''car_petrol''));
          solo_kg = (distance * of_int factor) / 1000;
          occupants' = max occupants 1;
          shared_kg = solo_kg / of_int occupants';
          saved_per_user = solo_kg - shared_kg
      in (solo_kg, shared_kg, saved_per_user))"

subsection \<open>Ride creation, joining and leaving (\<^verbatim>\<open>rides/views.py\<close>)\<close>

text \<open>\<^verbatim>\<open>request.POST.get(key, default)\<close>\<close>

definition post_get :: "request \<Rightarrow> string \<Rightarrow> string \<Rightarrow> string" where
  "post_get request k dflt = (case POST request k of None \<Rightarrow> dflt | Some v \<Rightarrow> v)"

text \<open>
  \<^verbatim>\<open>parse(request.POST[key])\<close> inside \<^verbatim>\<open>try: ... except (KeyError, ValueError)\<close>:
  \<open>None\<close> when the key is missing or the value does not parse.
\<close>

definition post_parse :: "(string \<Rightarrow> 'a option) \<Rightarrow> request \<Rightarrow> string \<Rightarrow> 'a option" where
  "post_parse parse request k = (case POST request k of None \<Rightarrow> None | Some v \<Rightarrow> parse v)"

text \<open>The \<^verbatim>\<open>try\<close> block of \<^verbatim>\<open>create_ride\<close>.\<close>

definition parse_ride_form :: "builtins \<Rightarrow> request \<Rightarrow> (nat \<times> nat \<times> rat \<times> int) option" where
  "parse_ride_form b request =
     (case post_parse (\<lambda>v. strptime b v ''%Y-%m-%d'') request ''ride_date'' of
        None \<Rightarrow> None
      | Some rdate \<Rightarrow>
     (case post_parse (\<lambda>v. strptime b v ''%H:%M'') request ''ride_time'' of
        None \<Rightarrow> None
      | Some rtime \<Rightarrow>
     (case post_parse (py_float b) request ''distance_km'' of
        None \<Rightarrow> None
      | Some dkm \<Rightarrow>
     (case post_parse (py_int b) request ''total_seats'' of
        None \<Rightarrow> None
      | Some seats \<Rightarrow> Some (rdate, rtime, dkm, seats)))))"

text \<open>\<^verbatim>\<open>Ride.objects.create(...)\<close>: a fresh primary key, then \<^verbatim>\<open>save\<close>.\<close>

definition Ride_objects_create :: "db \<Rightarrow> ride \<Rightarrow> db" where
  "Ride_objects_create d r =
     d\<lparr>rides := (rides d)(next_ride_id d \<mapsto> save r), next_ride_id := next_ride_id d + 1\<rparr>"

definition create_ride :: "builtins \<Rightarrow> db \<Rightarrow> request \<Rightarrow> response \<times> db" where
  "create_ride b d request =
     (case profiles d (req_user request) of
        None \<Rightarrow> (ServerError, d)
      | Some profile \<Rightarrow>
          if \<not> aadhaar_verified profile
          then (Redirect ''aadhaar_verification_start''
                  (Some (Warning, ''Please verify your Aadhaar to create rides.'')), d)
          else if req_method request = ''POST''
          then (case parse_ride_form b request of
                  None \<Rightarrow>
                    (Redirect ''create_ride'' (Some (Error, ''Please provide valid ride details.'')), d)
                | Some (rdate, rtime, dkm, seats) \<Rightarrow>
                    let vtype = post_get request ''vehicle_type'' ''car_petrol'';
                        from_l = strip (post_get request ''from_location'' []);
                        to_l = strip (post_get request ''to_location'' []);
                        vnumber = strip (post_get request ''vehicle_number'' [])
                    in if vnumber = []
                       then (Redirect ''create_ride'' (Some (Error, ''Vehicle number is required.'')), d)
                       else if seats < 1
                       then (Redirect ''create_ride''
                               (Some (Warning, ''Total seats must be at least 1.'')), d)
                       else let seats_avail = max (seats - 1) 0
                            in (Redirect ''rides_list'' (Some (Success, ''Ride created.'')),
                                Ride_objects_create d
                                  \<lparr>from_location = from_l, to_location = to_l,
                                   ride_date = rdate, ride_time = rtime,
                                   vehicle_type = vtype, vehicle_number = vnumber,
                                   distance_km = dkm, total_seats = seats,
                                   seats_available = seats_avail,
                                   creator = req_user request,
                                   driver_started = False, passenger_started = False,
                                   driver_ended = False, passenger_ended = False,
                                   ride_status = Created\<rparr>))
          else (Render ''rides/create_ride.html'' None, d))"

definition join_ride :: "db \<Rightarrow> request \<Rightarrow> ride_id \<Rightarrow> response \<times> db" where
  "join_ride d request rid =
     (case profiles d (req_user request) of
        None \<Rightarrow> (ServerError, d)
      | Some profile \<Rightarrow>
          if \<not> aadhaar_verified profile
          then (Redirect ''aadhaar_verification_start''
                  (Some (Warning, ''Please verify your Aadhaar to join rides.'')), d)
          else (case rides d rid of
                  None \<Rightarrow> (Http404, d)
                | Some r \<Rightarrow>
                    if req_method request = ''POST''
                    then if creator r = req_user request
                         then (Redirect ''rides_list''
                                 (Some (Info, ''You are the driver for this ride.'')), d)
                         else if seats_available r \<le> 0
                         then (Redirect ''rides_list'' (Some (Warning, ''No seats available.'')), d)
                         else if passenger_exists d rid (req_user request)
                         then (Redirect ''rides_list''
                                 (Some (Info, ''You have already joined this ride.'')), d)
                         else let ppoint = strip (post_get request ''pickup_point'' []);
                                  pnotes = strip (post_get request ''pickup_notes'' [])
                              in if ppoint = []
                                 then (Render ''rides/join_ride.html''
                                         (Some (Error, ''Please enter a pickup point.'')), d)
                                 else (Redirect ''rides_list''
                                         (Some (Success, ''Joined ride successfully!'')),
                                       d\<lparr>rides := (rides d)
                                            (rid \<mapsto> save (r\<lparr>seats_available := seats_available r - 1\<rparr>)),
                                          passengers := passengers d @
                                            [\<lparr>rp_user = req_user request, rp_ride = rid,
                                              pickup_point = ppoint, pickup_notes = pnotes\<rparr>]\<rparr>)
                    else (Render ''rides/join_ride.html'' None, d)))"

text \<open>
  \<^verbatim>\<open>cancel_ride\<close> (from the dashboard) and \<^verbatim>\<open>leave_ride\<close> (from the rides list) have the
  same body and differ in the page they redirect to.
\<close>

definition release_seat :: "string \<Rightarrow> db \<Rightarrow> request \<Rightarrow> ride_id \<Rightarrow> response \<times> db" where
  "release_seat page d request rid =
     (if req_method request = ''POST''
      then (case rides d rid of
              None \<Rightarrow> (Http404, d)
            | Some r \<Rightarrow>
                (case passenger_first d rid (req_user request) of
                   None \<Rightarrow> (Redirect page (Some (Warning, ''You have not joined this ride.'')), d)
                 | Some passenger \<Rightarrow>
                     (Redirect page (Some (Success, ''You have left the ride.'')),
                      d\<lparr>passengers := delete_first (is_rp rid (req_user request)) (passengers d),
                        rides := (rides d)
                          (rid \<mapsto> save (r\<lparr>seats_available := seats_available r + 1\<rparr>))\<rparr>)))
      else (Redirect page None, d))"

definition cancel_ride :: "db \<Rightarrow> request \<Rightarrow> ride_id \<Rightarrow> response \<times> db" where
  "cancel_ride = release_seat ''dashboard''"

definition leave_ride :: "db \<Rightarrow> request \<Rightarrow> ride_id \<Rightarrow> response \<times> db" where
  "leave_ride = release_seat ''rides_list''"

subsection \<open>Two-side confirmation views\<close>

text \<open>
  Each view is behind \<^verbatim>\<open>@require_http_methods(["POST"])\<close>. After setting its flag the view
  saves the ride and calls \<^verbatim>\<open>check_and_update_status\<close>.
\<close>

definition store_ride :: "db \<Rightarrow> ride_id \<Rightarrow> ride \<Rightarrow> db" where
  "store_ride d rid r = d\<lparr>rides := (rides d)(rid \<mapsto> r)\<rparr>"

definition driver_start_ride :: "db \<Rightarrow> request \<Rightarrow> ride_id \<Rightarrow> response \<times> db" where
  "driver_start_ride d request rid =
     (if req_method request \<noteq> ''POST'' then (HttpResponseNotAllowed, d)
      else case rides d rid of
        None \<Rightarrow> (Http404, d)
      | Some r \<Rightarrow>
          if creator r \<noteq> req_user request
          then (JsonError 403 ''Only the driver can start the ride'', d)
          else if ride_status r \<noteq> Created
          then (JsonError 400 ''Ride has already been started or completed'', d)
          else if driver_started r
          then (JsonError 400 ''You have already confirmed the start'', d)
          else let (status_changed, r') =
                     check_and_update_status (save (r\<lparr>driver_started := True\<rparr>))
               in (Redirect ''ride_detail''
                     (Some (if status_changed = Some Started
                            then (Success, ''Ride started! Location sharing is now enabled.'')
                            else (Info, ''You confirmed the start. Waiting for passenger confirmation.''))),
                   store_ride d rid r'))"

definition passenger_confirm_start :: "db \<Rightarrow> request \<Rightarrow> ride_id \<Rightarrow> response \<times> db" where
  "passenger_confirm_start d request rid =
     (if req_method request \<noteq> ''POST'' then (HttpResponseNotAllowed, d)
      else case rides d rid of
        None \<Rightarrow> (Http404, d)
      | Some r \<Rightarrow>
          if passenger_first d rid (req_user request) = None
          then (JsonError 403 ''Only passengers can confirm the start'', d)
          else if ride_status r \<noteq> Created
          then (JsonError 400 ''Ride has already been started or completed'', d)
          else if passenger_started r
          then (JsonError 400 ''You have already confirmed the start'', d)
          else let (status_changed, r') =
                     check_and_update_status (save (r\<lparr>passenger_started := True\<rparr>))
               in (Redirect ''ride_detail''
                     (Some (if status_changed = Some Started
                            then (Success, ''Ride started! You can now share your location.'')
                            else (Info, ''You confirmed the start. Waiting for driver confirmation.''))),
                   store_ride d rid r'))"

definition driver_end_ride :: "db \<Rightarrow> request \<Rightarrow> ride_id \<Rightarrow> response \<times> db" where
  "driver_end_ride d request rid =
     (if req_method request \<noteq> ''POST'' then (HttpResponseNotAllowed, d)
      else case rides d rid of
        None \<Rightarrow> (Http404, d)
      | Some r \<Rightarrow>
          if creator r \<noteq> req_user request
          then (JsonError 403 ''Only the driver can end the ride'', d)
          else if ride_status r \<noteq> Started
          then (JsonError 400 ''Ride must be started before it can be ended'', d)
          else if driver_ended r
          then (JsonError 400 ''You have already confirmed the end'', d)
          else let (status_changed, r') =
                     check_and_update_status (save (r\<lparr>driver_ended := True\<rparr>))
               in (Redirect ''ride_detail''
                     (Some (if status_changed = Some Completed
                            then (Success, ''Ride completed! Thank you for carpooling.'')
                            else (Info, ''You confirmed arrival. Waiting for passenger confirmation.''))),
                   store_ride d rid r'))"

definition passenger_confirm_arrival :: "db \<Rightarrow> request \<Rightarrow> ride_id \<Rightarrow> response \<times> db" where
  "passenger_confirm_arrival d request rid =
     (if req_method request \<noteq> ''POST'' then (HttpResponseNotAllowed, d)
      else case rides d rid of
        None \<Rightarrow> (Http404, d)
      | Some r \<Rightarrow>
          if passenger_first d rid (req_user request) = None
          then (JsonError 403 ''Only passengers can confirm arrival'', d)
          else if ride_status r \<noteq> Started
          then (JsonError 400 ''Ride must be started before it can be ended'', d)
          else if passenger_ended r
          then (JsonError 400 ''You have already confirmed arrival'', d)
          else let (status_changed, r') =
                     check_and_update_status (save (r\<lparr>passenger_ended := True\<rparr>))
               in (Redirect ''ride_detail''
                     (Some (if status_changed = Some Completed
                            then (Success, ''Ride completed! Thank you for carpooling.'')
                            else (Info, ''You confirmed arrival. Waiting for driver confirmation.''))),
                   store_ride d rid r'))"

subsection \<open>Live location views\<close>

text \<open>\<^verbatim>\<open>all([ride_id, latitude, longitude])\<close>: a missing or empty field is falsy.\<close>

definition truthy :: "string option \<Rightarrow> bool" where
  "truthy v = (case v of None \<Rightarrow> False | Some s \<Rightarrow> s \<noteq> [])"

text \<open>
  \<^verbatim>\<open>update_location\<close>. The body is inside \<^verbatim>\<open>try: ... except Exception\<close>, which turns the
  \<^verbatim>\<open>Http404\<close> of \<^verbatim>\<open>get_object_or_404\<close> and the \<^verbatim>\<open>ValueError\<close> of a ride id that is not a
  number into a JSON 500 carrying the exception text (abbreviated here for the \<^verbatim>\<open>ValueError\<close>).
  \<^verbatim>\<open>LiveLocation.objects.update_or_create(user=..., defaults=...)\<close> writes the one row of
  the user.
\<close>

definition update_location :: "builtins \<Rightarrow> db \<Rightarrow> request \<Rightarrow> response \<times> db" where
  "update_location b d request =
     (if req_method request \<noteq> ''POST'' then (HttpResponseNotAllowed, d)
      else let ride_id_s = POST request ''ride_id'';
               latitude_s = POST request ''latitude'';
               longitude_s = POST request ''longitude'';
               sharing = (lower (post_get request ''is_sharing'' ''false'') = ''true'')
           in if \<not> (truthy ride_id_s \<and> truthy latitude_s \<and> truthy longitude_s)
              then (JsonError 400 ''Missing required fields'', d)
              else case (ride_id_s, latitude_s, longitude_s) of
                (Some rid_s, Some lat_s, Some lon_s) \<Rightarrow>
                  (case (py_float b lat_s, py_float b lon_s) of
                     (Some lat, Some lon) \<Rightarrow>
                       (case py_int b rid_s of
                          None \<Rightarrow> (JsonError 500 ''Field id expected a number'', d)
                        | Some rid \<Rightarrow>
                            (case rides d rid of
                               None \<Rightarrow> (JsonError 500 ''No Ride matches the given query.'', d)
                             | Some r \<Rightarrow>
                                 if \<not> passenger_exists d rid (req_user request)
                                 then (JsonError 403 ''User is not a passenger in this ride'', d)
                                 else (JsonLocationUpdated lat lon,
                                       d\<lparr>live_locations := (live_locations d)
                                            (req_user request \<mapsto>
                                               \<lparr>ll_ride = rid, latitude = lat, longitude = lon,
                                                is_sharing = sharing\<rparr>)\<rparr>)))
                   | _ \<Rightarrow> (JsonError 400 ''Invalid coordinates'', d))
              | _ \<Rightarrow> (JsonError 400 ''Missing required fields'', d))"

text \<open>
  \<^verbatim>\<open>get_location\<close>, behind \<^verbatim>\<open>@require_http_methods(["GET"])\<close>.
  \<^verbatim>\<open>LiveLocation.objects.get(user=..., ride=..., is_sharing=True)\<close> finds the user's row only
  when it belongs to this ride and is shared.
\<close>

definition get_location :: "db \<Rightarrow> request \<Rightarrow> user_id \<Rightarrow> ride_id \<Rightarrow> response \<times> db" where
  "get_location d request uid rid =
     (if req_method request \<noteq> ''GET'' then (HttpResponseNotAllowed, d)
      else case rides d rid of
        None \<Rightarrow> (JsonError 500 ''No Ride matches the given query.'', d)
      | Some r \<Rightarrow>
          if creator r \<noteq> req_user request
          then (JsonError 403 ''Only ride creator can view locations'', d)
          else (case users d uid of
                  None \<Rightarrow> (JsonError 500 ''No User matches the given query.'', d)
                | Some email \<Rightarrow>
                    if \<not> passenger_exists d rid uid
                    then (JsonError 404 ''User is not a passenger in this ride'', d)
                    else (case live_locations d uid of
                            None \<Rightarrow>
                              (JsonError 404 ''Location not available or sharing disabled'', d)
                          | Some loc \<Rightarrow>
                              if ll_ride loc = rid \<and> is_sharing loc
                              then (JsonLocation uid email (latitude loc) (longitude loc), d)
                              else (JsonError 404 ''Location not available or sharing disabled'', d))))"

subsection \<open>Sequences of requests\<close>

text \<open>A request to one of the seat-changing views, and the state it leaves behind.\<close>

datatype action =
    CreateRide request
  | JoinRide request ride_id
  | LeaveRide request ride_id
  | CancelRide request ride_id

fun step :: "builtins \<Rightarrow> db \<Rightarrow> action \<Rightarrow> db" where
  "step b d (CreateRide q) = snd (create_ride b d q)"
| "step b d (JoinRide q rid) = snd (join_ride d q rid)"
| "step b d (LeaveRide q rid) = snd (leave_ride d q rid)"
| "step b d (CancelRide q rid) = snd (cancel_ride d q rid)"

definition run :: "builtins \<Rightarrow> db \<Rightarrow> action list \<Rightarrow> db" where
  "run b d acts = foldl (step b) d acts"

text \<open>A database without rides and join records, before the first request.\<close>

definition initial :: "db \<Rightarrow> bool" where
  "initial d = (rides d = Map.empty \<and> passengers d = [])"

text \<open>
  The seat invariant as the code keeps it: the driver occupies one of the \<open>total_seats\<close>
  (\<^verbatim>\<open>seats_available = max(total_seats - 1, 0)\<close> at creation), every join record one more.
\<close>

definition seats_ok :: "db \<Rightarrow> bool" where
  "seats_ok d =
     (\<forall>rid r. rides d rid = Some r \<longrightarrow>
        0 \<le> seats_available r \<and> seats_available r \<le> total_seats r \<and>
        total_seats r - seats_available r = int (passenger_count d rid) + 1)"

text \<open>Referential integrity and the freshness of the next primary key.\<close>

definition refs_ok :: "db \<Rightarrow> bool" where
  "refs_ok d =
     ((\<forall>p \<in> set (passengers d). rides d (rp_ride p) \<noteq> None) \<and>
      (\<forall>rid. rides d rid \<noteq> None \<longrightarrow> rid < next_ride_id d))"

text \<open>\<^verbatim>\<open>unique_together = ['user', 'ride']\<close>\<close>

definition unique_together :: "db \<Rightarrow> bool" where
  "unique_together d = distinct (map (\<lambda>p. (rp_user p, rp_ride p)) (passengers d))"

text \<open>A call of one of the four confirmation views.\<close>

datatype confirmation =
    DriverStart request ride_id
  | PassengerStart request ride_id
  | DriverEnd request ride_id
  | PassengerEnd request ride_id

fun confirm :: "db \<Rightarrow> confirmation \<Rightarrow> response \<times> db" where
  "confirm d (DriverStart q rid) = driver_start_ride d q rid"
| "confirm d (PassengerStart q rid) = passenger_confirm_start d q rid"
| "confirm d (DriverEnd q rid) = driver_end_ride d q rid"
| "confirm d (PassengerEnd q rid) = passenger_confirm_arrival d q rid"

text \<open>All states a sequence of confirmation calls goes through, the first one included.\<close>

fun states :: "db \<Rightarrow> confirmation list \<Rightarrow> db list" where
  "states d [] = [d]"
| "states d (c # cs) = d # states (snd (confirm d c)) cs"

definition status_of :: "ride_id \<Rightarrow> db \<Rightarrow> status option" where
  "status_of rid d = map_option ride_status (rides d rid)"

definition status_trace :: "db \<Rightarrow> ride_id \<Rightarrow> confirmation list \<Rightarrow> status option list" where
  "status_trace d rid cs = map (status_of rid) (states d cs)"

text \<open>
  The lifecycle \<open>Created \<rightarrow> Started \<rightarrow> Completed\<close>: from one state to the next the status
  stays or takes exactly one step forward.
\<close>

definition forward :: "status option \<Rightarrow> status option \<Rightarrow> bool" where
  "forward s s' =
     (s' = s \<or> (s = Some Created \<and> s' = Some Started) \<or> (s = Some Started \<and> s' = Some Completed))"

fun forward_only :: "status option list \<Rightarrow> bool" where
  "forward_only (s # s' # ss) = (forward s s' \<and> forward_only (s' # ss))"
| "forward_only _ = True"

subsection \<open>Example data\<close>

text \<open>
  Builtins for the examples: decimal digit strings for \<^verbatim>\<open>int()\<close> and \<^verbatim>\<open>float()\<close>, and the
  two timestamps used below for \<^verbatim>\<open>strptime\<close>; on these inputs they agree with Python.
\<close>

fun dec_digits :: "nat \<Rightarrow> string \<Rightarrow> nat option" where
  "dec_digits acc [] = Some acc"
| "dec_digits acc (c # cs) =
     (let n = (of_char c :: nat)
      in if 48 \<le> n \<and> n \<le> 57 then dec_digits (10 * acc + (n - 48)) cs else None)"

definition dec_int :: "string \<Rightarrow> int option" where
  "dec_int s = (if s = [] then None else map_option int (dec_digits 0 s))"

definition ex_builtins :: builtins where
  "ex_builtins =
     \<lparr>py_int = dec_int,
      py_float = (\<lambda>s. map_option of_int (dec_int s)),
      strptime = (\<lambda>v fmt.
         if fmt = ''%Y-%m-%d'' \<and> v = ''2026-01-01'' then Some 20454
         else if fmt = ''%H:%M'' \<and> v = ''08:30'' then Some 510
         else None)\<rparr>"

text \<open>Five users, all verified except user 3; no rides yet.\<close>

definition ex_db :: db where
  "ex_db =
     \<lparr>users = [1 \<mapsto> ''alice@eco.com'', 2 \<mapsto> ''bob@eco.com'', 3 \<mapsto> ''carol@eco.com'',
               4 \<mapsto> ''dan@eco.com'', 5 \<mapsto> ''eve@eco.com''],
      profiles = [1 \<mapsto> \<lparr>aadhaar_verified = True\<rparr>, 2 \<mapsto> \<lparr>aadhaar_verified = True\<rparr>,
                  3 \<mapsto> \<lparr>aadhaar_verified = False\<rparr>, 4 \<mapsto> \<lparr>aadhaar_verified = True\<rparr>,
                  5 \<mapsto> \<lparr>aadhaar_verified = True\<rparr>],
      rides = Map.empty,
      next_ride_id = 1,
      passengers = [],
      live_locations = Map.empty\<rparr>"

definition ex_ride :: ride where
  "ex_ride =
     \<lparr>from_location = ''Campus'', to_location = ''Downtown'',
      ride_date = 20454, ride_time = 510,
      vehicle_type = ''car_petrol'', vehicle_number = ''KL07AB1234'',
      distance_km = 12, total_seats = 4, seats_available = 3,
      creator = 1,
      driver_started = False, passenger_started = False,
      driver_ended = False, passenger_ended = False,
      ride_status = Created\<rparr>"

definition post_as :: "user_id \<Rightarrow> (string \<times> string) list \<Rightarrow> request" where
  "post_as u kvs = \<lparr>req_user = u, req_method = ''POST'', POST = map_of kvs\<rparr>"

definition get_as :: "user_id \<Rightarrow> request" where
  "get_as u = \<lparr>req_user = u, req_method = ''GET'', POST = Map.empty\<rparr>"

definition ex_create :: "user_id \<Rightarrow> string \<Rightarrow> request" where
  "ex_create u seats =
     post_as u [(''ride_date'', ''2026-01-01''), (''ride_time'', ''08:30''),
                (''distance_km'', ''12''), (''total_seats'', seats),
                (''from_location'', ''Campus''), (''to_location'', ''Downtown''),
                (''vehicle_number'', ''KL07AB1234'')]"

definition ex_join :: "user_id \<Rightarrow> request" where
  "ex_join u = post_as u [(''pickup_point'', ''Main gate'')]"

subsection \<open>Auxiliary notions for the statements\<close>

text \<open>The join record that \<^verbatim>\<open>RidePassenger.objects.create\<close> writes in \<^verbatim>\<open>join_ride\<close>.\<close>

definition join_record :: "request \<Rightarrow> ride_id \<Rightarrow> ride_passenger" where
  "join_record q rid =
     \<lparr>rp_user = req_user q, rp_ride = rid,
      pickup_point = strip (post_get q ''pickup_point'' []),
      pickup_notes = strip (post_get q ''pickup_notes'' [])\<rparr>"

definition db_inv :: "db \<Rightarrow> bool" where
  "db_inv d = (seats_ok d \<and> refs_ok d \<and> unique_together d)"

text \<open>
  The seat invariant in the words of the specification: \<open>total_seats - seats_available\<close> is
  the number of join records (no seat for the driver).
\<close>

definition seats_ok_as_specified :: "db \<Rightarrow> bool" where
  "seats_ok_as_specified d =
     (\<forall>rid r. rides d rid = Some r \<longrightarrow>
        0 \<le> seats_available r \<and> seats_available r \<le> total_seats r \<and>
        total_seats r - seats_available r = int (passenger_count d rid))"

text \<open>
  What a confirmation call may do to the database: nothing, or store the ride again with a
  status that stayed or went one step forward.
\<close>

definition confirm_effect :: "db \<Rightarrow> ride_id \<Rightarrow> db \<Rightarrow> bool" where
  "confirm_effect d rid d' =
     (d' = d \<or> (\<exists>r r'. rides d rid = Some r \<and> d' = store_ride d rid r' \<and>
        forward (Some (ride_status r)) (Some (ride_status r'))))"

text \<open>The success answer of \<^verbatim>\<open>join_ride\<close>.\<close>

definition joined :: response where
  "joined = Redirect ''rides_list'' (Some (Success, ''Joined ride successfully!''))"

text \<open>
  Example states: \<open>ex_db1\<close> after user 1 created ride 1 with four seats, \<open>ex_db2\<close> after
  user 2 joined it. \<open>ex_db_seeded\<close> is a database as \<^verbatim>\<open>manage.py seed_data\<close> leaves it: a ride
  whose creator was made by \<^verbatim>\<open>create_user\<close>, with the default \<^verbatim>\<open>aadhaar_verified = False\<close>.
\<close>

definition ex_db1 :: db where
  "ex_db1 = run ex_builtins ex_db [CreateRide (ex_create 1 ''4'')]"

definition ex_db2 :: db where
  "ex_db2 = run ex_builtins ex_db [CreateRide (ex_create 1 ''4''), JoinRide (ex_join 2) 1]"

text \<open>The scenario of the specification: a ride with two seats, joined by user 2.\<close>

definition ex_small :: db where
  "ex_small = run ex_builtins ex_db [CreateRide (ex_create 1 ''2''), JoinRide (ex_join 2) 1]"

text \<open>\<open>ex_db3\<close>: ride 1 of \<open>ex_db2\<close> after its driver confirmed the start.\<close>

definition ex_db3 :: db where
  "ex_db3 = snd (driver_start_ride ex_db2 (post_as 1 []) 1)"

text \<open>\<open>ex_db_completed\<close>: ride 1 of \<open>ex_db2\<close> after both sides confirmed start and end.\<close>

definition ex_db_completed :: db where
  "ex_db_completed =
     last (states ex_db2
       [DriverStart (post_as 1 []) 1, PassengerStart (post_as 2 []) 1,
        DriverEnd (post_as 1 []) 1, PassengerEnd (post_as 2 []) 1])"

definition ex_update :: "user_id \<Rightarrow> string \<Rightarrow> request" where
  "ex_update u lat =
     post_as u [(''ride_id'', ''1''), (''latitude'', lat), (''longitude'', ''76''),
                (''is_sharing'', ''true'')]"

text \<open>\<open>ex_db_hidden\<close>: user 2 sent a position for ride 1 without consenting to share it.\<close>

definition ex_db_hidden :: db where
  "ex_db_hidden =
     snd (update_location ex_builtins ex_db2
            (post_as 2 [(''ride_id'', ''1''), (''latitude'', ''10''), (''longitude'', ''76'')]))"

definition ex_db_seeded :: db where
  "ex_db_seeded = ex_db\<lparr>rides := [1 \<mapsto> ex_ride\<lparr>creator := 3\<rparr>], next_ride_id := 2\<rparr>"

section \<open>Verification\<close>

subsection \<open>Basic facts about the views\<close>

lemma save_fields [simp]:
  "seats_available (save r) = seats_available r"
  "total_seats (save r) = total_seats r"
  "creator (save r) = creator r"
  "ride_status (save r) = ride_status r"
  "driver_started (save r) = driver_started r"
  "passenger_started (save r) = passenger_started r"
  "driver_ended (save r) = driver_ended r"
  "passenger_ended (save r) = passenger_ended r"
  "distance_km (save r) = distance_km r"
  "vehicle_type (save r) = vehicle_type r"
  by (simp_all add: save_def)

lemma save_update_status [simp]:
  "ride_status (save (r\<lparr>driver_started := x\<rparr>)) = ride_status r"
  "ride_status (save (r\<lparr>passenger_started := x\<rparr>)) = ride_status r"
  "ride_status (save (r\<lparr>driver_ended := x\<rparr>)) = ride_status r"
  "ride_status (save (r\<lparr>passenger_ended := x\<rparr>)) = ride_status r"
  by (simp_all add: save_def)

lemma store_ride_simps [simp]:
  "rides (store_ride d rid r) rid = Some r"
  "passengers (store_ride d rid r) = passengers d"
  "passenger_exists (store_ride d rid r) x u = passenger_exists d x u"
  by (simp_all add: store_ride_def passenger_exists_def)

lemma status_of_store [simp]:
  "status_of x (store_ride d rid r) = (if x = rid then Some (ride_status r) else status_of x d)"
  by (simp add: status_of_def store_ride_def)

lemma check_and_update_status_fields [simp]:
  "driver_started (snd (check_and_update_status r)) = driver_started r"
  "passenger_started (snd (check_and_update_status r)) = passenger_started r"
  "driver_ended (snd (check_and_update_status r)) = driver_ended r"
  "passenger_ended (snd (check_and_update_status r)) = passenger_ended r"
  "creator (snd (check_and_update_status r)) = creator r"
  "seats_available (snd (check_and_update_status r)) = seats_available r"
  "total_seats (snd (check_and_update_status r)) = total_seats r"
  "ride_status (snd (check_and_update_status r)) =
     (if driver_started r \<and> passenger_started r \<and> ride_status r = Created then Started
      else if driver_ended r \<and> passenger_ended r \<and> ride_status r = Started then Completed
      else ride_status r)"
  by (simp_all add: check_and_update_status_def)

lemma passenger_first_None: "(passenger_first d rid u = None) = (\<not> passenger_exists d rid u)"
  by (simp add: passenger_first_def passenger_exists_def split: list.splits)

lemma passenger_first_profiles [simp]:
  "passenger_first (d\<lparr>profiles := ps\<rparr>) rid u = passenger_first d rid u"
  by (simp add: passenger_first_def)

lemma store_ride_profiles:
  "store_ride (d\<lparr>profiles := ps\<rparr>) rid r = (store_ride d rid r)\<lparr>profiles := ps\<rparr>"
  by (simp add: store_ride_def)

lemma forward_refl [simp]: "forward s s"
  by (simp add: forward_def)

lemma create_ride_cases:
  "snd (create_ride b d q) = d \<or>
   (\<exists>r. snd (create_ride b d q) = Ride_objects_create d r \<and> 1 \<le> total_seats r \<and>
        seats_available r = total_seats r - 1)"
  by (auto simp: create_ride_def Let_def split: option.splits prod.splits)

lemma join_ride_cases:
  "snd (join_ride d q rid) = d \<or>
   (\<exists>r. rides d rid = Some r \<and> 0 < seats_available r \<and>
      \<not> passenger_exists d rid (req_user q) \<and>
      snd (join_ride d q rid) =
        d\<lparr>rides := (rides d)(rid \<mapsto> save (r\<lparr>seats_available := seats_available r - 1\<rparr>)),
          passengers := passengers d @ [join_record q rid]\<rparr>)"
  by (auto simp: join_ride_def join_record_def Let_def split: option.splits)

lemma release_seat_cases:
  "snd (release_seat pg d q rid) = d \<or>
   (\<exists>r. rides d rid = Some r \<and> passenger_exists d rid (req_user q) \<and>
      snd (release_seat pg d q rid) =
        d\<lparr>passengers := delete_first (is_rp rid (req_user q)) (passengers d),
          rides := (rides d)(rid \<mapsto> save (r\<lparr>seats_available := seats_available r + 1\<rparr>))\<rparr>)"
  by (auto simp: release_seat_def passenger_first_def passenger_exists_def split: option.splits list.splits)

lemma join_ride_verified_post:
  assumes "profiles d (req_user q) = Some pr" "aadhaar_verified pr" "req_method q = ''POST''"
    "rides d rid = Some r"
  shows "join_ride d q rid =
     (if creator r = req_user q
      then (Redirect ''rides_list'' (Some (Info, ''You are the driver for this ride.'')), d)
      else if seats_available r \<le> 0
      then (Redirect ''rides_list'' (Some (Warning, ''No seats available.'')), d)
      else if passenger_exists d rid (req_user q)
      then (Redirect ''rides_list'' (Some (Info, ''You have already joined this ride.'')), d)
      else if strip (post_get q ''pickup_point'' []) = []
      then (Render ''rides/join_ride.html'' (Some (Error, ''Please enter a pickup point.'')), d)
      else (joined,
            d\<lparr>rides := (rides d)(rid \<mapsto> save (r\<lparr>seats_available := seats_available r - 1\<rparr>)),
              passengers := passengers d @ [join_record q rid]\<rparr>))"
  using assms by (simp add: join_ride_def joined_def join_record_def Let_def)

lemma release_seat_post:
  assumes "req_method q = ''POST''" "rides d rid = Some r"
  shows "release_seat pg d q rid =
     (if \<not> passenger_exists d rid (req_user q)
      then (Redirect pg (Some (Warning, ''You have not joined this ride.'')), d)
      else (Redirect pg (Some (Success, ''You have left the ride.'')),
            d\<lparr>passengers := delete_first (is_rp rid (req_user q)) (passengers d),
              rides := (rides d)(rid \<mapsto> save (r\<lparr>seats_available := seats_available r + 1\<rparr>))\<rparr>))"
  using assms
  by (simp add: release_seat_def passenger_first_def passenger_exists_def split: list.splits)

lemma driver_start_ride_post:
  assumes "rides d rid = Some r" "req_method q = ''POST''"
  shows "driver_start_ride d q rid =
     (if creator r \<noteq> req_user q then (JsonError 403 ''Only the driver can start the ride'', d)
      else if ride_status r \<noteq> Created
      then (JsonError 400 ''Ride has already been started or completed'', d)
      else if driver_started r then (JsonError 400 ''You have already confirmed the start'', d)
      else (Redirect ''ride_detail''
              (Some (if fst (check_and_update_status (save (r\<lparr>driver_started := True\<rparr>))) = Some Started
                     then (Success, ''Ride started! Location sharing is now enabled.'')
                     else (Info, ''You confirmed the start. Waiting for passenger confirmation.''))),
            store_ride d rid (snd (check_and_update_status (save (r\<lparr>driver_started := True\<rparr>))))))"
  using assms
  by (simp add: driver_start_ride_def split_beta)

lemma passenger_confirm_start_post:
  assumes "rides d rid = Some r" "req_method q = ''POST''"
  shows "passenger_confirm_start d q rid =
     (if \<not> passenger_exists d rid (req_user q)
      then (JsonError 403 ''Only passengers can confirm the start'', d)
      else if ride_status r \<noteq> Created
      then (JsonError 400 ''Ride has already been started or completed'', d)
      else if passenger_started r then (JsonError 400 ''You have already confirmed the start'', d)
      else (Redirect ''ride_detail''
              (Some (if fst (check_and_update_status (save (r\<lparr>passenger_started := True\<rparr>))) = Some Started
                     then (Success, ''Ride started! You can now share your location.'')
                     else (Info, ''You confirmed the start. Waiting for driver confirmation.''))),
            store_ride d rid (snd (check_and_update_status (save (r\<lparr>passenger_started := True\<rparr>))))))"
  using assms
  by (simp add: passenger_confirm_start_def split_beta passenger_first_None)

lemma driver_end_ride_post:
  assumes "rides d rid = Some r" "req_method q = ''POST''"
  shows "driver_end_ride d q rid =
     (if creator r \<noteq> req_user q then (JsonError 403 ''Only the driver can end the ride'', d)
      else if ride_status r \<noteq> Started
      then (JsonError 400 ''Ride must be started before it can be ended'', d)
      else if driver_ended r then (JsonError 400 ''You have already confirmed the end'', d)
      else (Redirect ''ride_detail''
              (Some (if fst (check_and_update_status (save (r\<lparr>driver_ended := True\<rparr>))) = Some Completed
                     then (Success, ''Ride completed! Thank you for carpooling.'')
                     else (Info, ''You confirmed arrival. Waiting for passenger confirmation.''))),
            store_ride d rid (snd (check_and_update_status (save (r\<lparr>driver_ended := True\<rparr>))))))"
  using assms
  by (simp add: driver_end_ride_def split_beta)

lemma passenger_confirm_arrival_post:
  assumes "rides d rid = Some r" "req_method q = ''POST''"
  shows "passenger_confirm_arrival d q rid =
     (if \<not> passenger_exists d rid (req_user q)
      then (JsonError 403 ''Only passengers can confirm arrival'', d)
      else if ride_status r \<noteq> Started
      then (JsonError 400 ''Ride must be started before it can be ended'', d)
      else if passenger_ended r then (JsonError 400 ''You have already confirmed arrival'', d)
      else (Redirect ''ride_detail''
              (Some (if fst (check_and_update_status (save (r\<lparr>passenger_ended := True\<rparr>))) = Some Completed
                     then (Success, ''Ride completed! Thank you for carpooling.'')
                     else (Info, ''You confirmed arrival. Waiting for driver confirmation.''))),
            store_ride d rid (snd (check_and_update_status (save (r\<lparr>passenger_ended := True\<rparr>))))))"
  using assms
  by (simp add: passenger_confirm_arrival_def split_beta passenger_first_None)

lemma driver_start_ride_profiles:
  "driver_start_ride (d\<lparr>profiles := ps\<rparr>) q rid =
     (fst (driver_start_ride d q rid), (snd (driver_start_ride d q rid))\<lparr>profiles := ps\<rparr>)"
  by (simp add: driver_start_ride_def store_ride_profiles split_beta split: option.splits)

lemma passenger_confirm_start_profiles:
  "passenger_confirm_start (d\<lparr>profiles := ps\<rparr>) q rid =
     (fst (passenger_confirm_start d q rid), (snd (passenger_confirm_start d q rid))\<lparr>profiles := ps\<rparr>)"
  by (auto simp: passenger_confirm_start_def store_ride_profiles split_beta split: option.splits)

lemma update_location_wellformed:
  assumes "req_method q = ''POST''"
    and "POST q ''ride_id'' = Some rs" "rs \<noteq> []" "py_int b rs = Some rid"
    and "POST q ''latitude'' = Some las" "las \<noteq> []" "py_float b las = Some lat"
    and "POST q ''longitude'' = Some los" "los \<noteq> []" "py_float b los = Some lon"
    and "rides d rid = Some r"
  shows "update_location b d q =
     (if \<not> passenger_exists d rid (req_user q)
      then (JsonError 403 ''User is not a passenger in this ride'', d)
      else (JsonLocationUpdated lat lon,
            d\<lparr>live_locations := (live_locations d)
                 (req_user q \<mapsto>
                    \<lparr>ll_ride = rid, latitude = lat, longitude = lon,
                     is_sharing = (lower (post_get q ''is_sharing'' ''false'') = ''true'')\<rparr>)\<rparr>))"
  using assms by (simp add: update_location_def truthy_def Let_def)

lemma update_location_not_passenger:
  assumes "\<And>rs rid. POST q ''ride_id'' = Some rs \<Longrightarrow> py_int b rs = Some rid \<Longrightarrow>
             \<not> passenger_exists d rid (req_user q)"
  shows "snd (update_location b d q) = d"
  using assms
  by (auto simp: update_location_def Let_def split: option.splits prod.splits)

lemma update_location_missing:
  assumes "req_method q = ''POST''" "k \<in> {''ride_id'', ''latitude'', ''longitude''}"
    "POST q k = None \<or> POST q k = Some []"
  shows "update_location b d q = (JsonError 400 ''Missing required fields'', d)"
  using assms by (auto simp: update_location_def truthy_def Let_def)

lemma update_location_malformed:
  assumes "req_method q = ''POST''"
    "POST q ''ride_id'' = Some rs" "rs \<noteq> []"
    "POST q ''latitude'' = Some las" "las \<noteq> []"
    "POST q ''longitude'' = Some los" "los \<noteq> []"
    "py_float b las = None \<or> py_float b los = None"
  shows "update_location b d q = (JsonError 400 ''Invalid coordinates'', d)"
  using assms by (auto simp: update_location_def truthy_def Let_def split: option.splits)

lemma get_location_readonly: "snd (get_location d q uid rid) = d"
  by (simp add: get_location_def split: option.splits)

lemma get_location_creator:
  assumes "req_method q = ''GET''" "rides d rid = Some r" "creator r = req_user q"
    "users d uid = Some email"
  shows "get_location d q uid rid =
     (if \<not> passenger_exists d rid uid
      then (JsonError 404 ''User is not a passenger in this ride'', d)
      else case live_locations d uid of
             None \<Rightarrow> (JsonError 404 ''Location not available or sharing disabled'', d)
           | Some loc \<Rightarrow>
               if ll_ride loc = rid \<and> is_sharing loc
               then (JsonLocation uid email (latitude loc) (longitude loc), d)
               else (JsonError 404 ''Location not available or sharing disabled'', d))"
  using assms by (simp add: get_location_def)

lemma get_location_hidden:
  assumes "\<not> is_sharing l"
  shows "fst (get_location (d\<lparr>live_locations := (live_locations d)(uid \<mapsto> l)\<rparr>) q uid rid) =
         fst (get_location (d\<lparr>live_locations := (live_locations d)(uid := None)\<rparr>) q uid rid)"
  using assms by (simp add: get_location_def passenger_exists_def split: option.splits)

subsection \<open>Deleting one join record\<close>

lemma filter_delete_first_other:
  "(\<And>x. P x \<Longrightarrow> \<not> Q x) \<Longrightarrow> filter Q (delete_first P xs) = filter Q xs"
  by (induction xs) auto

lemma length_filter_delete_first:
  "(\<And>x. P x \<Longrightarrow> Q x) \<Longrightarrow> filter P xs \<noteq> [] \<Longrightarrow>
   Suc (length (filter Q (delete_first P xs))) = length (filter Q xs)"
  by (induction xs) auto

lemma set_delete_first: "set (delete_first P xs) \<subseteq> set xs"
  by (induction xs) auto

lemma distinct_map_delete_first:
  "distinct (map f xs) \<Longrightarrow> distinct (map f (delete_first P xs))"
proof (induction xs)
  case Nil
  then show ?case by simp
next
  case (Cons x xs)
  have "f ` set (delete_first P xs) \<subseteq> f ` set xs"
    using set_delete_first by (rule image_mono)
  with Cons show ?case by auto
qed

lemma filter_delete_first_unique:
  "distinct (map f xs) \<Longrightarrow> (\<And>x. P x = (f x = k)) \<Longrightarrow> filter P (delete_first P xs) = []"
proof (induction xs)
  case Nil
  then show ?case by simp
next
  case (Cons x xs)
  show ?case
  proof (cases "P x")
    case True
    with Cons.prems have "\<forall>y \<in> set xs. \<not> P y"
      by (metis distinct.simps(2) image_eqI list.simps(9) set_map)
    with True show ?thesis by (simp add: filter_empty_conv)
  next
    case False
    with Cons show ?thesis by simp
  qed
qed

lemma unique_released:
  assumes "unique_together d"
  shows "filter (is_rp rid u) (delete_first (is_rp rid u) (passengers d)) = []"
proof (rule filter_delete_first_unique [where f = "\<lambda>p. (rp_user p, rp_ride p)" and k = "(u, rid)"])
  show "distinct (map (\<lambda>p. (rp_user p, rp_ride p)) (passengers d))"
    using assms by (simp add: unique_together_def)
  show "is_rp rid u x = ((rp_user x, rp_ride x) = (u, rid))" for x
    by (auto simp: is_rp_def)
qed

subsection \<open>The seat invariant is kept by every request\<close>

lemma inv_initial: "initial d \<Longrightarrow> db_inv d"
  by (simp add: initial_def db_inv_def seats_ok_def refs_ok_def unique_together_def)

lemma inv_create:
  assumes "db_inv d" "1 \<le> total_seats r" "seats_available r = total_seats r - 1"
  shows "db_inv (Ride_objects_create d r)"
proof -
  from assms(1) have fresh: "rides d (next_ride_id d) = None"
    by (auto simp: db_inv_def refs_ok_def)
  from assms(1) fresh have nop: "\<forall>p \<in> set (passengers d). rp_ride p \<noteq> next_ride_id d"
    by (auto simp: db_inv_def refs_ok_def)
  then have cnt: "passenger_count d (next_ride_id d) = 0"
    by (auto simp: passenger_count_def filter_empty_conv)
  have pc: "passenger_count (Ride_objects_create d r) = passenger_count d"
    by (simp add: fun_eq_iff passenger_count_def Ride_objects_create_def)
  have "seats_ok (Ride_objects_create d r)"
    using assms cnt unfolding seats_ok_def pc
    by (auto simp: db_inv_def seats_ok_def Ride_objects_create_def)
  moreover have "refs_ok (Ride_objects_create d r)"
    using assms(1) by (force simp: db_inv_def refs_ok_def Ride_objects_create_def)
  moreover have "unique_together (Ride_objects_create d r)"
    using assms(1) by (simp add: db_inv_def unique_together_def Ride_objects_create_def)
  ultimately show ?thesis by (simp add: db_inv_def)
qed

lemma inv_join:
  assumes "db_inv d" "rides d rid = Some r" "0 < seats_available r"
    "\<not> passenger_exists d rid u" "rp_ride p = rid" "rp_user p = u"
  shows "db_inv (d\<lparr>rides := (rides d)(rid \<mapsto> save (r\<lparr>seats_available := seats_available r - 1\<rparr>)),
          passengers := passengers d @ [p]\<rparr>)"
    (is "db_inv ?d'")
proof -
  have pc: "passenger_count ?d' x = (if x = rid then Suc (passenger_count d x) else passenger_count d x)" for x
    using assms(5) by (simp add: passenger_count_def)
  have "seats_ok ?d'"
    unfolding seats_ok_def
  proof (intro allI impI)
    fix x r' assume x: "rides ?d' x = Some r'"
    show "0 \<le> seats_available r' \<and> seats_available r' \<le> total_seats r' \<and>
          total_seats r' - seats_available r' = int (passenger_count ?d' x) + 1"
    proof (cases "x = rid")
      case True
      with x have r': "r' = save (r\<lparr>seats_available := seats_available r - 1\<rparr>)" by simp
      from assms(1,2) have "0 \<le> seats_available r" "seats_available r \<le> total_seats r"
        "total_seats r - seats_available r = int (passenger_count d rid) + 1"
        by (auto simp: db_inv_def seats_ok_def)
      with assms(3) True r' show ?thesis by (simp add: pc)
    next
      case False
      with x have "rides d x = Some r'" by simp
      with assms(1) False show ?thesis
        by (simp add: db_inv_def seats_ok_def pc)
    qed
  qed
  moreover have "refs_ok ?d'"
    using assms(1,2,5) by (auto simp: db_inv_def refs_ok_def)
  moreover have "unique_together ?d'"
  proof -
    have "(rp_user p, rp_ride p) \<notin> (\<lambda>p. (rp_user p, rp_ride p)) ` set (passengers d)"
      using assms(4,5,6) by (auto simp: passenger_exists_def filter_empty_conv is_rp_def)
    with assms(1) show ?thesis by (simp add: db_inv_def unique_together_def)
  qed
  ultimately show ?thesis by (simp add: db_inv_def)
qed

lemma inv_release:
  assumes "db_inv d" "rides d rid = Some r" "passenger_exists d rid u"
  shows "db_inv (d\<lparr>passengers := delete_first (is_rp rid u) (passengers d),
          rides := (rides d)(rid \<mapsto> save (r\<lparr>seats_available := seats_available r + 1\<rparr>))\<rparr>)"
    (is "db_inv ?d'")
proof -
  have ne: "filter (is_rp rid u) (passengers d) \<noteq> []"
    using assms(3) by (simp add: passenger_exists_def)
  have pc_rid: "Suc (passenger_count ?d' rid) = passenger_count d rid"
    using length_filter_delete_first [of "is_rp rid u" "\<lambda>p. rp_ride p = rid", OF _ ne]
    by (simp add: passenger_count_def is_rp_def)
  have pc_other: "passenger_count ?d' x = passenger_count d x" if "x \<noteq> rid" for x
    using that filter_delete_first_other [of "is_rp rid u" "\<lambda>p. rp_ride p = x"]
    by (simp add: passenger_count_def is_rp_def)
  have "seats_ok ?d'"
    unfolding seats_ok_def
  proof (intro allI impI)
    fix x r' assume x: "rides ?d' x = Some r'"
    show "0 \<le> seats_available r' \<and> seats_available r' \<le> total_seats r' \<and>
          total_seats r' - seats_available r' = int (passenger_count ?d' x) + 1"
    proof (cases "x = rid")
      case True
      with x have r': "r' = save (r\<lparr>seats_available := seats_available r + 1\<rparr>)" by simp
      from assms(1,2) have "0 \<le> seats_available r" "seats_available r \<le> total_seats r"
        "total_seats r - seats_available r = int (passenger_count d rid) + 1"
        by (auto simp: db_inv_def seats_ok_def)
      with pc_rid True r' show ?thesis by simp
    next
      case False
      with x have "rides d x = Some r'" by simp
      with assms(1) pc_other [OF False] show ?thesis
        by (simp add: db_inv_def seats_ok_def)
    qed
  qed
  moreover have "refs_ok ?d'"
    using assms(1,2) set_delete_first [of "is_rp rid u" "passengers d"]
    by (auto simp: db_inv_def refs_ok_def)
  moreover have "unique_together ?d'"
    using assms(1) by (simp add: db_inv_def unique_together_def distinct_map_delete_first)
  ultimately show ?thesis by (simp add: db_inv_def)
qed

lemma inv_step: "db_inv d \<Longrightarrow> db_inv (step b d a)"
proof (cases a)
  case (CreateRide q)
  assume "db_inv d"
  with create_ride_cases [of b d q] CreateRide show ?thesis
    by (auto intro: inv_create)
next
  case (JoinRide q rid)
  assume "db_inv d"
  with join_ride_cases [of d q rid] JoinRide show ?thesis
    by (auto intro!: inv_join simp: join_record_def)
next
  case (LeaveRide q rid)
  assume "db_inv d"
  with release_seat_cases [of "''rides_list''" d q rid] LeaveRide show ?thesis
    by (auto simp: leave_ride_def intro: inv_release)
next
  case (CancelRide q rid)
  assume "db_inv d"
  with release_seat_cases [of "''dashboard''" d q rid] CancelRide show ?thesis
    by (auto simp: cancel_ride_def intro: inv_release)
qed

lemma inv_run: "db_inv d \<Longrightarrow> db_inv (run b d acts)"
  unfolding run_def by (induction acts arbitrary: d) (auto intro: inv_step)

subsection \<open>Confirmation calls move the status forward\<close>

lemma check_and_update_status_forward:
  "forward (Some (ride_status r)) (Some (ride_status (snd (check_and_update_status r))))"
  by (simp add: check_and_update_status_def forward_def)

lemma confirm_effect_forward: "confirm_effect d rid d' \<Longrightarrow> forward (status_of x d) (status_of x d')"
  by (auto simp: confirm_effect_def) (simp add: status_of_def)

lemma confirm_effectI:
  "rides d rid = Some r \<Longrightarrow> ride_status r0 = ride_status r \<Longrightarrow>
   confirm_effect d rid (store_ride d rid (snd (check_and_update_status r0)))"
  unfolding confirm_effect_def using check_and_update_status_forward [of r0] by auto

lemma driver_start_ride_rel: "confirm_effect d rid (snd (driver_start_ride d q rid))"
  by (auto simp: driver_start_ride_def split_beta intro!: confirm_effectI split: option.splits)
    (simp add: confirm_effect_def)+

lemma passenger_confirm_start_rel: "confirm_effect d rid (snd (passenger_confirm_start d q rid))"
  by (auto simp: passenger_confirm_start_def split_beta intro!: confirm_effectI split: option.splits)
    (simp add: confirm_effect_def)+

lemma driver_end_ride_rel: "confirm_effect d rid (snd (driver_end_ride d q rid))"
  by (auto simp: driver_end_ride_def split_beta intro!: confirm_effectI split: option.splits)
    (simp add: confirm_effect_def)+

lemma passenger_confirm_arrival_rel: "confirm_effect d rid (snd (passenger_confirm_arrival d q rid))"
  by (auto simp: passenger_confirm_arrival_def split_beta intro!: confirm_effectI split: option.splits)
    (simp add: confirm_effect_def)+

lemma confirm_forward: "forward (status_of x d) (status_of x (snd (confirm d c)))"
  by (cases c)
    (simp_all add: confirm_effect_forward [OF driver_start_ride_rel]
      confirm_effect_forward [OF passenger_confirm_start_rel]
      confirm_effect_forward [OF driver_end_ride_rel]
      confirm_effect_forward [OF passenger_confirm_arrival_rel])

lemma states_Cons: "\<exists>ds. states d cs = d # ds"
  by (cases cs) simp_all

lemma forward_only_trace: "forward_only (status_trace d x cs)"
proof (induction cs arbitrary: d)
  case Nil
  then show ?case by (simp add: status_trace_def)
next
  case (Cons c cs)
  obtain ds where ds: "states (snd (confirm d c)) cs = snd (confirm d c) # ds"
    using states_Cons by blast
  from Cons [of "snd (confirm d c)"] show ?case
    by (simp add: status_trace_def ds confirm_forward)
qed

lemma forward_only_started_before:
  "forward_only (s # tr) \<Longrightarrow> s = Some Created \<Longrightarrow> i < length (s # tr) \<Longrightarrow>
   (s # tr) ! i = Some Completed \<Longrightarrow> \<exists>j<i. (s # tr) ! j = Some Started"
proof (induction tr arbitrary: s i)
  case Nil
  then show ?case by simp
next
  case (Cons s' tr)
  from Cons.prems obtain i' where i: "i = Suc i'"
    by (cases i) auto
  from Cons.prems have f: "forward s s'" and fo: "forward_only (s' # tr)"
    by simp_all
  from f Cons.prems(2) consider "s' = Some Created" | "s' = Some Started"
    by (auto simp: forward_def)
  then show ?case
  proof cases
    case 1
    from Cons.IH [OF fo 1, of i'] Cons.prems i obtain j where "j < i'" "(s' # tr) ! j = Some Started"
      by auto
    then have "Suc j < i" "(s # s' # tr) ! Suc j = Some Started"
      using i by simp_all
    then show ?thesis by blast
  next
    case 2
    with Cons.prems i have "i' \<noteq> 0"
      by (cases i') auto
    with 2 i have "Suc 0 < i" "(s # s' # tr) ! Suc 0 = Some Started"
      by simp_all
    then show ?thesis by blast
  qed
qed

subsection \<open>Evaluating the examples\<close>

lemmas ex_defs = ex_db_def ex_create_def ex_join_def post_as_def get_as_def ex_builtins_def ex_ride_def

lemmas str_defs = strip_def isspace_def upper_def upper_char_def lower_def lower_char_def

lemmas view_defs = create_ride_def join_ride_def release_seat_def leave_ride_def cancel_ride_def
  parse_ride_form_def post_parse_def post_get_def Ride_objects_create_def save_def
  passenger_exists_def passenger_first_def is_rp_def dec_int_def Let_def

lemmas confirm_defs = driver_start_ride_def passenger_confirm_start_def driver_end_ride_def
  passenger_confirm_arrival_def check_and_update_status_def store_ride_def save_def
  passenger_first_def is_rp_def

lemmas loc_defs = update_location_def get_location_def truthy_def post_get_def
  passenger_exists_def is_rp_def dec_int_def Let_def

lemma ex_run_one_passenger:
  "rides (run ex_builtins ex_db [CreateRide (ex_create 1 ''4''), JoinRide (ex_join 2) 1]) 1
     = Some (ex_ride\<lparr>seats_available := 2\<rparr>)"
  by (simp add: run_def view_defs ex_defs str_defs)

lemma ex_run_three_passengers:
  "rides (run ex_builtins ex_db [CreateRide (ex_create 1 ''4''), JoinRide (ex_join 2) 1,
       JoinRide (ex_join 4) 1, JoinRide (ex_join 5) 1]) 1
     = Some (ex_ride\<lparr>seats_available := 0\<rparr>)"
  by (simp add: run_def view_defs ex_defs str_defs)

lemma ex_db1_eq: "ex_db1 = ex_db\<lparr>rides := [1 \<mapsto> ex_ride], next_ride_id := 2\<rparr>"
  by (simp add: ex_db1_def run_def view_defs ex_defs str_defs)

lemma ex_db2_eq:
  "ex_db2 = ex_db\<lparr>rides := [1 \<mapsto> ex_ride\<lparr>seats_available := 2\<rparr>], next_ride_id := 2,
      passengers := [\<lparr>rp_user = 2, rp_ride = 1, pickup_point = ''Main gate'', pickup_notes = []\<rparr>]\<rparr>"
  by (simp add: ex_db2_def run_def view_defs ex_defs str_defs)

lemma ex_small_eq:
  "ex_small = ex_db\<lparr>rides := [1 \<mapsto> ex_ride\<lparr>total_seats := 2, seats_available := 0\<rparr>], next_ride_id := 2,
      passengers := [\<lparr>rp_user = 2, rp_ride = 1, pickup_point = ''Main gate'', pickup_notes = []\<rparr>]\<rparr>"
  by (simp add: ex_small_def run_def view_defs ex_defs str_defs)

lemma ex_db3_eq:
  "ex_db3 = ex_db\<lparr>rides := [1 \<mapsto> ex_ride\<lparr>seats_available := 2, driver_started := True\<rparr>],
      next_ride_id := 2,
      passengers := [\<lparr>rp_user = 2, rp_ride = 1, pickup_point = ''Main gate'', pickup_notes = []\<rparr>]\<rparr>"
  by (simp add: ex_db3_def ex_db2_eq confirm_defs ex_defs str_defs)

lemma ex_db_completed_eq:
  "ex_db_completed =
     ex_db2\<lparr>rides := [1 \<mapsto> ex_ride\<lparr>seats_available := 2, driver_started := True,
        passenger_started := True, driver_ended := True, passenger_ended := True,
        ride_status := Completed\<rparr>]\<rparr>"
  by (simp add: ex_db_completed_def ex_db2_eq confirm_defs ex_defs str_defs)

lemma ex_db_hidden_eq:
  "ex_db_hidden = ex_db2\<lparr>live_locations :=
      [2 \<mapsto> \<lparr>ll_ride = 1, latitude = 10, longitude = 76, is_sharing = False\<rparr>]\<rparr>"
  by (simp add: ex_db_hidden_def ex_db2_eq loc_defs ex_defs str_defs)

lemma ex_db_seeded_started:
  "driver_start_ride ex_db_seeded (post_as 3 []) 1 =
     (Redirect ''ride_detail''
        (Some (Info, ''You confirmed the start. Waiting for passenger confirmation.'')),
      ex_db_seeded\<lparr>rides := [1 \<mapsto> ex_ride\<lparr>creator := 3, driver_started := True\<rparr>]\<rparr>)"
  by (simp add: ex_db_seeded_def confirm_defs ex_defs str_defs)

lemma ex_trace:
  "status_trace ex_db2 1
     [DriverStart (post_as 1 []) 1, PassengerStart (post_as 2 []) 1,
      DriverEnd (post_as 1 []) 1, PassengerEnd (post_as 2 []) 1]
   = [Some Created, Some Created, Some Started, Some Started, Some Completed]"
  by (simp add: status_trace_def status_of_def ex_db2_eq confirm_defs ex_defs str_defs)

subsection \<open>Joining a ride\<close>

text \<open>
  Claim C1 (as amended). For every ride and every user whose profile is verified, a POST to
  \<^verbatim>\<open>join_ride\<close> fails exactly when the user is the ride's creator (message "You are the
  driver for this ride."), \<open>seats_available \<le> 0\<close> ("No seats available."), a join record of
  the user for the ride exists ("You have already joined this ride.") or the stripped pickup
  point is empty ("Please enter a pickup point."); a failed join leaves the database as it
  was. Otherwise the join succeeds, \<open>seats_available\<close> drops by exactly one and the join
  record of the user for the ride is added.
  The claim leaves out the verification gate: an unverified user is turned away although
  none of the four conditions holds, which is the counterexample.
\<close>

theorem join_ride_outcome:
  assumes "profiles d (req_user q) = Some pr" and "aadhaar_verified pr"
    and "req_method q = ''POST''" and "rides d rid = Some r"
  shows
    "((fst (join_ride d q rid) \<noteq> joined) =
        (creator r = req_user q \<or> seats_available r \<le> 0 \<or>
         passenger_exists d rid (req_user q) \<or> strip (post_get q ''pickup_point'' []) = []))
     \<and> (creator r = req_user q \<longrightarrow>
          fst (join_ride d q rid) =
            Redirect ''rides_list'' (Some (Info, ''You are the driver for this ride.'')))
     \<and> (creator r \<noteq> req_user q \<and> seats_available r \<le> 0 \<longrightarrow>
          fst (join_ride d q rid) = Redirect ''rides_list'' (Some (Warning, ''No seats available.'')))
     \<and> (creator r \<noteq> req_user q \<and> 0 < seats_available r \<and> passenger_exists d rid (req_user q) \<longrightarrow>
          fst (join_ride d q rid) =
            Redirect ''rides_list'' (Some (Info, ''You have already joined this ride.'')))
     \<and> (creator r \<noteq> req_user q \<and> 0 < seats_available r \<and> \<not> passenger_exists d rid (req_user q) \<and>
          strip (post_get q ''pickup_point'' []) = [] \<longrightarrow>
          fst (join_ride d q rid) =
            Render ''rides/join_ride.html'' (Some (Error, ''Please enter a pickup point.'')))
     \<and> (fst (join_ride d q rid) \<noteq> joined \<longrightarrow> snd (join_ride d q rid) = d)
     \<and> (fst (join_ride d q rid) = joined \<longrightarrow>
          map_option seats_available (rides (snd (join_ride d q rid)) rid) = Some (seats_available r - 1)
          \<and> rides (snd (join_ride d q rid)) =
              (rides d)(rid \<mapsto> save (r\<lparr>seats_available := seats_available r - 1\<rparr>))
          \<and> passengers (snd (join_ride d q rid)) = passengers d @ [join_record q rid]
          \<and> passenger_exists (snd (join_ride d q rid)) rid (req_user q)
          \<and> passenger_count (snd (join_ride d q rid)) rid = passenger_count d rid + 1)"
  unfolding join_ride_verified_post [OF assms]
  by (simp add: joined_def passenger_exists_def passenger_count_def join_record_def is_rp_def)

theorem join_ride_outcome_witness:
  "profiles ex_db1 (req_user (ex_join 2)) = Some \<lparr>aadhaar_verified = True\<rparr>
   \<and> req_method (ex_join 2) = ''POST'' \<and> rides ex_db1 1 = Some ex_ride
   \<and> fst (join_ride ex_db1 (ex_join 2) 1) = joined
   \<and> map_option seats_available (rides (snd (join_ride ex_db1 (ex_join 2) 1)) 1) = Some 2
   \<and> passenger_exists (snd (join_ride ex_db1 (ex_join 2) 1)) 1 2
   \<and> snd (join_ride ex_db1 (ex_join 2) 1) = ex_db2"
proof -
  have p: "profiles ex_db1 (req_user (ex_join 2)) = Some \<lparr>aadhaar_verified = True\<rparr>"
    and v: "aadhaar_verified \<lparr>aadhaar_verified = True\<rparr>"
    and m: "req_method (ex_join 2) = ''POST''"
    and r: "rides ex_db1 1 = Some ex_ride"
    by (simp_all add: ex_db1_eq ex_defs)
  have ok: "\<not> (creator ex_ride = req_user (ex_join 2) \<or> seats_available ex_ride \<le> 0 \<or>
         passenger_exists ex_db1 1 (req_user (ex_join 2)) \<or>
         strip (post_get (ex_join 2) ''pickup_point'' []) = [])"
    by (simp add: ex_db1_eq ex_defs passenger_exists_def post_get_def str_defs)
  have e: "snd (join_ride ex_db1 (ex_join 2) 1) = ex_db2"
    by (simp add: ex_db1_def ex_db2_def run_def)
  have u: "req_user (ex_join 2) = 2"
    by (simp add: ex_defs)
  from join_ride_outcome [OF p v m r] ok p m r e show ?thesis
    by (simp add: ex_ride_def u)
qed

theorem join_ride_counterexample:
  "profiles ex_db1 (req_user (ex_join 3)) = Some \<lparr>aadhaar_verified = False\<rparr>
   \<and> req_method (ex_join 3) = ''POST'' \<and> rides ex_db1 1 = Some ex_ride
   \<and> creator ex_ride \<noteq> req_user (ex_join 3)
   \<and> 0 < seats_available ex_ride
   \<and> \<not> passenger_exists ex_db1 1 (req_user (ex_join 3))
   \<and> strip (post_get (ex_join 3) ''pickup_point'' []) = ''Main gate''
   \<and> join_ride ex_db1 (ex_join 3) 1 =
        (Redirect ''aadhaar_verification_start''
           (Some (Warning, ''Please verify your Aadhaar to join rides.'')), ex_db1)"
  by (simp add: ex_db1_eq ex_defs passenger_exists_def post_get_def str_defs join_ride_def)

subsection \<open>The seat invariant\<close>

text \<open>
  Claim C2 (as amended). In every state reached from a database without rides by any sequence
  of \<^verbatim>\<open>create_ride\<close>, \<^verbatim>\<open>join_ride\<close>, \<^verbatim>\<open>leave_ride\<close> and \<^verbatim>\<open>cancel_ride\<close> requests, every
  ride has \<open>0 \<le> seats_available \<le> total_seats\<close>, and \<open>total_seats - seats_available\<close> is
  the number of its join records plus one: the driver occupies a seat from creation on.
  As the claim states it (without the driver's seat) the invariant already fails after
  the creation of a ride, which is the counterexample.
\<close>

theorem seat_invariant: "initial d \<Longrightarrow> seats_ok (run b d acts)"
  using inv_run [OF inv_initial, of d b acts] by (simp add: db_inv_def)

theorem seat_invariant_witness:
  "initial ex_db \<and> seats_ok ex_db2 \<and>
   map_option total_seats (rides ex_db2 1) = Some 4 \<and>
   map_option seats_available (rides ex_db2 1) = Some 2 \<and>
   passenger_count ex_db2 1 = 1"
proof -
  have i: "initial ex_db"
    by (simp add: initial_def ex_db_def)
  have "seats_ok ex_db2"
    unfolding ex_db2_def by (rule seat_invariant [OF i])
  moreover have "map_option total_seats (rides ex_db2 1) = Some 4"
    "map_option seats_available (rides ex_db2 1) = Some 2" "passenger_count ex_db2 1 = 1"
    by (simp_all add: ex_db2_eq passenger_count_def ex_ride_def ex_db_def)
  ultimately show ?thesis using i by simp
qed

theorem seat_invariant_counterexample:
  "initial ex_db \<and> \<not> seats_ok_as_specified (run ex_builtins ex_db [CreateRide (ex_create 1 ''4'')])"
proof -
  have r: "rides ex_db1 1 = Some ex_ride" and c: "passenger_count ex_db1 1 = 0"
    by (simp_all add: ex_db1_eq passenger_count_def ex_db_def)
  have "\<not> seats_ok_as_specified ex_db1"
  proof
    assume "seats_ok_as_specified ex_db1"
    with r have "total_seats ex_ride - seats_available ex_ride = int (passenger_count ex_db1 1)"
      unfolding seats_ok_as_specified_def by blast
    with c show False by (simp add: ex_ride_def)
  qed
  then show ?thesis
    by (simp add: ex_db1_def initial_def ex_db_def)
qed

subsection \<open>The ride lifecycle\<close>

text \<open>
  Claim C3. For every ride and every sequence of calls of the four confirmation views (by
  any users, on any rides), the status of the ride only moves forward along
  \<open>Created \<rightarrow> Started \<rightarrow> Completed\<close>: from one state to the next it stays or takes exactly one
  step; whenever a sequence that began in \<open>Created\<close> shows \<open>Completed\<close>, an earlier state
  of it shows \<open>Started\<close>; and a single call never moves the status from \<open>Created\<close> to
  \<open>Completed\<close>, nor backward, nor out of \<open>Completed\<close>.
\<close>

theorem lifecycle_forward:
  "forward_only (status_trace d rid cs)
   \<and> (\<forall>i < length (status_trace d rid cs).
        status_trace d rid cs ! 0 = Some Created \<and> status_trace d rid cs ! i = Some Completed \<longrightarrow>
        (\<exists>j<i. status_trace d rid cs ! j = Some Started))
   \<and> forward (status_of rid d) (status_of rid (snd (confirm d c)))
   \<and> \<not> (status_of rid d = Some Created \<and> status_of rid (snd (confirm d c)) = Some Completed)
   \<and> \<not> (status_of rid d = Some Started \<and> status_of rid (snd (confirm d c)) = Some Created)
   \<and> \<not> (status_of rid d = Some Completed \<and> status_of rid (snd (confirm d c)) \<noteq> Some Completed)"
proof -
  have fo: "forward_only (status_trace d rid cs)"
    by (rule forward_only_trace)
  obtain s tr where tr: "status_trace d rid cs = s # tr"
    using states_Cons [of d cs] by (auto simp: status_trace_def)
  have before: "\<exists>j<i. status_trace d rid cs ! j = Some Started"
    if "i < length (status_trace d rid cs)" "status_trace d rid cs ! 0 = Some Created"
      "status_trace d rid cs ! i = Some Completed" for i
    using forward_only_started_before [of s tr i] fo that unfolding tr by simp
  have step: "forward (status_of rid d) (status_of rid (snd (confirm d c)))"
    by (rule confirm_forward)
  from fo before step show ?thesis
    by (auto simp: forward_def)
qed

theorem lifecycle_forward_witness:
  "status_trace ex_db2 1
     [DriverStart (post_as 1 []) 1, PassengerStart (post_as 2 []) 1,
      DriverEnd (post_as 1 []) 1, PassengerEnd (post_as 2 []) 1]
   = [Some Created, Some Created, Some Started, Some Started, Some Completed]
   \<and> (\<exists>j<4. status_trace ex_db2 1
     [DriverStart (post_as 1 []) 1, PassengerStart (post_as 2 []) 1,
      DriverEnd (post_as 1 []) 1, PassengerEnd (post_as 2 []) 1] ! j = Some Started)"
proof -
  let ?cs = "[DriverStart (post_as 1 []) 1, PassengerStart (post_as 2 []) 1,
      DriverEnd (post_as 1 []) 1, PassengerEnd (post_as 2 []) 1]"
  have "\<forall>i < length (status_trace ex_db2 1 ?cs).
        status_trace ex_db2 1 ?cs ! 0 = Some Created \<and> status_trace ex_db2 1 ?cs ! i = Some Completed \<longrightarrow>
        (\<exists>j<i. status_trace ex_db2 1 ?cs ! j = Some Started)"
    using lifecycle_forward [of ex_db2 1 ?cs] by blast
  then have "4 < length (status_trace ex_db2 1 ?cs) \<longrightarrow>
        status_trace ex_db2 1 ?cs ! 0 = Some Created \<and> status_trace ex_db2 1 ?cs ! 4 = Some Completed \<longrightarrow>
        (\<exists>j<4. status_trace ex_db2 1 ?cs ! j = Some Started)"
    by blast
  moreover have "4 < length (status_trace ex_db2 1 ?cs)"
    "status_trace ex_db2 1 ?cs ! 0 = Some Created" "status_trace ex_db2 1 ?cs ! 4 = Some Completed"
    by (simp_all add: ex_trace)
  ultimately have "\<exists>j<4. status_trace ex_db2 1 ?cs ! j = Some Started"
    by blast
  with ex_trace show ?thesis by blast
qed

subsection \<open>Repeated and untimely confirmations\<close>

text \<open>
  Claim C4 (as amended). For every ride, a POST to a confirmation view whose flag is already
  set, or made while the status does not match (\<open>Created\<close> for the start views, \<open>Started\<close>
  for the end views), leaves the database unchanged, and with it the status and the four
  flags; the answer is a JSON 400 when the caller is entitled to the call (the creator for
  the driver views, a user with a join record for the passenger views) and a JSON 403
  otherwise. When the driver and a passenger both confirm the start of a ride that is
  \<open>Created\<close> with neither start flag set, in either order, the status is still \<open>Created\<close>
  after the first confirmation and \<open>Started\<close> after the second, and every further start
  confirmation fails in the same way and leaves the state as it is.
  The claim promises the conflict answer to every such call; a caller who is not entitled
  gets the authorisation answer instead, which is the counterexample.
\<close>

theorem confirmation_conflict:
  assumes "rides d rid = Some r" and "req_method q = ''POST''"
  shows
    "(driver_started r \<or> ride_status r \<noteq> Created \<longrightarrow>
        driver_start_ride d q rid =
          (if creator r \<noteq> req_user q then JsonError 403 ''Only the driver can start the ride''
           else if ride_status r \<noteq> Created
           then JsonError 400 ''Ride has already been started or completed''
           else JsonError 400 ''You have already confirmed the start'', d))
     \<and> (passenger_started r \<or> ride_status r \<noteq> Created \<longrightarrow>
        passenger_confirm_start d q rid =
          (if \<not> passenger_exists d rid (req_user q)
           then JsonError 403 ''Only passengers can confirm the start''
           else if ride_status r \<noteq> Created
           then JsonError 400 ''Ride has already been started or completed''
           else JsonError 400 ''You have already confirmed the start'', d))
     \<and> (driver_ended r \<or> ride_status r \<noteq> Started \<longrightarrow>
        driver_end_ride d q rid =
          (if creator r \<noteq> req_user q then JsonError 403 ''Only the driver can end the ride''
           else if ride_status r \<noteq> Started
           then JsonError 400 ''Ride must be started before it can be ended''
           else JsonError 400 ''You have already confirmed the end'', d))
     \<and> (passenger_ended r \<or> ride_status r \<noteq> Started \<longrightarrow>
        passenger_confirm_arrival d q rid =
          (if \<not> passenger_exists d rid (req_user q)
           then JsonError 403 ''Only passengers can confirm arrival''
           else if ride_status r \<noteq> Started
           then JsonError 400 ''Ride must be started before it can be ended''
           else JsonError 400 ''You have already confirmed arrival'', d))
     \<and> (ride_status r = Created \<and> \<not> driver_started r \<and> \<not> passenger_started r \<and>
          creator r = req_user q \<and> req_method qp = ''POST'' \<and> passenger_exists d rid (req_user qp) \<and>
          req_method q' = ''POST'' \<longrightarrow>
        (let d1 = snd (driver_start_ride d q rid);
             d2 = snd (passenger_confirm_start d1 qp rid);
             e1 = snd (passenger_confirm_start d qp rid);
             e2 = snd (driver_start_ride e1 q rid)
         in status_of rid d1 = Some Created \<and> status_of rid d2 = Some Started
            \<and> status_of rid e1 = Some Created \<and> status_of rid e2 = Some Started
            \<and> snd (driver_start_ride d2 q' rid) = d2 \<and> snd (passenger_confirm_start d2 q' rid) = d2
            \<and> snd (driver_start_ride e2 q' rid) = e2 \<and> snd (passenger_confirm_start e2 q' rid) = e2
            \<and> fst (driver_start_ride d2 q' rid) =
                 (if creator r \<noteq> req_user q' then JsonError 403 ''Only the driver can start the ride''
                  else JsonError 400 ''Ride has already been started or completed'')
            \<and> fst (passenger_confirm_start d2 q' rid) =
                 (if \<not> passenger_exists d rid (req_user q')
                  then JsonError 403 ''Only passengers can confirm the start''
                  else JsonError 400 ''Ride has already been started or completed'')
            \<and> fst (driver_start_ride e2 q' rid) = fst (driver_start_ride d2 q' rid)
            \<and> fst (passenger_confirm_start e2 q' rid) = fst (passenger_confirm_start d2 q' rid)))"
proof -
  note r = assms(1) and m = assms(2)
  have a: "driver_started r \<or> ride_status r \<noteq> Created \<longrightarrow>
        driver_start_ride d q rid =
          (if creator r \<noteq> req_user q then JsonError 403 ''Only the driver can start the ride''
           else if ride_status r \<noteq> Created
           then JsonError 400 ''Ride has already been started or completed''
           else JsonError 400 ''You have already confirmed the start'', d)"
    by (simp add: driver_start_ride_post [OF r m])
  have b: "passenger_started r \<or> ride_status r \<noteq> Created \<longrightarrow>
        passenger_confirm_start d q rid =
          (if \<not> passenger_exists d rid (req_user q)
           then JsonError 403 ''Only passengers can confirm the start''
           else if ride_status r \<noteq> Created
           then JsonError 400 ''Ride has already been started or completed''
           else JsonError 400 ''You have already confirmed the start'', d)"
    by (simp add: passenger_confirm_start_post [OF r m])
  have c: "driver_ended r \<or> ride_status r \<noteq> Started \<longrightarrow>
        driver_end_ride d q rid =
          (if creator r \<noteq> req_user q then JsonError 403 ''Only the driver can end the ride''
           else if ride_status r \<noteq> Started
           then JsonError 400 ''Ride must be started before it can be ended''
           else JsonError 400 ''You have already confirmed the end'', d)"
    by (simp add: driver_end_ride_post [OF r m])
  have e: "passenger_ended r \<or> ride_status r \<noteq> Started \<longrightarrow>
        passenger_confirm_arrival d q rid =
          (if \<not> passenger_exists d rid (req_user q)
           then JsonError 403 ''Only passengers can confirm arrival''
           else if ride_status r \<noteq> Started
           then JsonError 400 ''Ride must be started before it can be ended''
           else JsonError 400 ''You have already confirmed arrival'', d)"
    by (simp add: passenger_confirm_arrival_post [OF r m])
  have f: "(let d1 = snd (driver_start_ride d q rid);
             d2 = snd (passenger_confirm_start d1 qp rid);
             e1 = snd (passenger_confirm_start d qp rid);
             e2 = snd (driver_start_ride e1 q rid)
         in status_of rid d1 = Some Created \<and> status_of rid d2 = Some Started
            \<and> status_of rid e1 = Some Created \<and> status_of rid e2 = Some Started
            \<and> snd (driver_start_ride d2 q' rid) = d2 \<and> snd (passenger_confirm_start d2 q' rid) = d2
            \<and> snd (driver_start_ride e2 q' rid) = e2 \<and> snd (passenger_confirm_start e2 q' rid) = e2
            \<and> fst (driver_start_ride d2 q' rid) =
                 (if creator r \<noteq> req_user q' then JsonError 403 ''Only the driver can start the ride''
                  else JsonError 400 ''Ride has already been started or completed'')
            \<and> fst (passenger_confirm_start d2 q' rid) =
                 (if \<not> passenger_exists d rid (req_user q')
                  then JsonError 403 ''Only passengers can confirm the start''
                  else JsonError 400 ''Ride has already been started or completed'')
            \<and> fst (driver_start_ride e2 q' rid) = fst (driver_start_ride d2 q' rid)
            \<and> fst (passenger_confirm_start e2 q' rid) = fst (passenger_confirm_start d2 q' rid))"
    if h: "ride_status r = Created \<and> \<not> driver_started r \<and> \<not> passenger_started r \<and>
          creator r = req_user q \<and> req_method qp = ''POST'' \<and> passenger_exists d rid (req_user qp) \<and>
          req_method q' = ''POST''"
  proof -
    let ?r1 = "snd (check_and_update_status (save (r\<lparr>driver_started := True\<rparr>)))"
    let ?d1 = "store_ride d rid ?r1"
    let ?r2 = "snd (check_and_update_status (save (?r1\<lparr>passenger_started := True\<rparr>)))"
    let ?d2 = "store_ride ?d1 rid ?r2"
    let ?s1 = "snd (check_and_update_status (save (r\<lparr>passenger_started := True\<rparr>)))"
    let ?e1 = "store_ride d rid ?s1"
    let ?s2 = "snd (check_and_update_status (save (?s1\<lparr>driver_started := True\<rparr>)))"
    let ?e2 = "store_ride ?e1 rid ?s2"
    from h have mp: "req_method qp = ''POST''" and m': "req_method q' = ''POST''" by simp_all
    have d1: "snd (driver_start_ride d q rid) = ?d1"
      using h by (simp add: driver_start_ride_post [OF r m])
    have r1: "rides ?d1 rid = Some ?r1" by simp
    have d2: "snd (passenger_confirm_start ?d1 qp rid) = ?d2"
      using h by (simp add: passenger_confirm_start_post [OF r1 mp])
    have r2: "rides ?d2 rid = Some ?r2" by simp
    have e1: "snd (passenger_confirm_start d qp rid) = ?e1"
      using h by (simp add: passenger_confirm_start_post [OF r mp])
    have s1: "rides ?e1 rid = Some ?s1" by simp
    have e2: "snd (driver_start_ride ?e1 q rid) = ?e2"
      using h by (simp add: driver_start_ride_post [OF s1 m])
    have s2: "rides ?e2 rid = Some ?s2" by simp
    have st: "ride_status ?r1 = Created" "ride_status ?r2 = Started"
      "ride_status ?s1 = Created" "ride_status ?s2 = Started"
      using h by simp_all
    show ?thesis
      unfolding Let_def d1 d2 e1 e2
      using h st
      by (simp add: driver_start_ride_post [OF r2 m'] passenger_confirm_start_post [OF r2 m']
          driver_start_ride_post [OF s2 m'] passenger_confirm_start_post [OF s2 m'])
  qed
  from a b c e f show ?thesis by blast
qed

theorem confirmation_conflict_witness:
  "rides ex_db2 1 = Some (ex_ride\<lparr>seats_available := 2\<rparr>)
   \<and> rides ex_db3 1 = Some (ex_ride\<lparr>seats_available := 2, driver_started := True\<rparr>)
   \<and> req_method (post_as 1 []) = ''POST'' \<and> req_method (post_as 2 []) = ''POST''
   \<and> driver_end_ride ex_db2 (post_as 1 []) 1 =
        (JsonError 400 ''Ride must be started before it can be ended'', ex_db2)
   \<and> driver_start_ride ex_db3 (post_as 1 []) 1 =
        (JsonError 400 ''You have already confirmed the start'', ex_db3)
   \<and> snd (driver_start_ride ex_db2 (post_as 1 []) 1) = ex_db3
   \<and> status_of 1 ex_db3 = Some Created
   \<and> status_of 1 (snd (passenger_confirm_start ex_db3 (post_as 2 []) 1)) = Some Started
   \<and> passenger_confirm_start (snd (passenger_confirm_start ex_db3 (post_as 2 []) 1)) (post_as 2 []) 1 =
        (JsonError 400 ''Ride has already been started or completed'',
         snd (passenger_confirm_start ex_db3 (post_as 2 []) 1))"
proof -
  let ?r2 = "ex_ride\<lparr>seats_available := 2\<rparr>"
  let ?r3 = "ex_ride\<lparr>seats_available := 2, driver_started := True\<rparr>"
  have r2: "rides ex_db2 1 = Some ?r2" and r3: "rides ex_db3 1 = Some ?r3"
    by (simp_all add: ex_db2_eq ex_db3_eq)
  have m: "req_method (post_as 1 []) = ''POST''" "req_method (post_as 2 []) = ''POST''"
    and u: "req_user (post_as 1 []) = 1" "req_user (post_as 2 []) = 2"
    by (simp_all add: post_as_def)
  have p: "passenger_exists ex_db2 1 2"
    by (simp add: ex_db2_eq passenger_exists_def is_rp_def)
  have d3: "snd (driver_start_ride ex_db2 (post_as 1 []) 1) = ex_db3"
    by (simp add: ex_db3_def)
  note t2 = confirmation_conflict [OF r2 m(1), of "post_as 2 []" "post_as 2 []"]
  note t3 = confirmation_conflict [OF r3 m(1)]
  from t2 have "driver_end_ride ex_db2 (post_as 1 []) 1 =
        (JsonError 400 ''Ride must be started before it can be ended'', ex_db2)"
    by (simp add: ex_ride_def u)
  moreover from t3 have "driver_start_ride ex_db3 (post_as 1 []) 1 =
        (JsonError 400 ''You have already confirmed the start'', ex_db3)"
    by (simp add: ex_ride_def u)
  moreover from t2 m u p have "status_of 1 ex_db3 = Some Created
     \<and> status_of 1 (snd (passenger_confirm_start ex_db3 (post_as 2 []) 1)) = Some Started
     \<and> passenger_confirm_start (snd (passenger_confirm_start ex_db3 (post_as 2 []) 1)) (post_as 2 []) 1 =
        (JsonError 400 ''Ride has already been started or completed'',
         snd (passenger_confirm_start ex_db3 (post_as 2 []) 1))"
    by (simp add: ex_ride_def d3 Let_def prod_eq_iff)
  ultimately show ?thesis
    using r2 r3 m d3 by simp
qed

theorem confirmation_conflict_counterexample:
  "rides ex_db3 1 = Some (ex_ride\<lparr>seats_available := 2, driver_started := True\<rparr>)
   \<and> driver_started (ex_ride\<lparr>seats_available := 2, driver_started := True\<rparr>)
   \<and> req_method (post_as 2 []) = ''POST''
   \<and> driver_start_ride ex_db3 (post_as 2 []) 1 =
        (JsonError 403 ''Only the driver can start the ride'', ex_db3)"
  by (simp add: ex_db3_eq driver_start_ride_def ex_defs)

subsection \<open>Leaving a ride\<close>

text \<open>
  Claim C5. For every ride and user, a POST to \<^verbatim>\<open>leave_ride\<close> (or \<^verbatim>\<open>cancel_ride\<close>, which
  differs in the redirect target only) without a join record of the user for the ride fails
  with the warning "You have not joined this ride." and leaves the database unchanged. With
  a join record it succeeds, deletes that record (one record less for the ride; under
  \<^verbatim>\<open>unique_together\<close> none of the user is left) and raises \<open>seats_available\<close> by exactly
  one. After any sequence of create, join, leave and cancel requests on a database that
  started without rides, no ride has more seats available than \<open>total_seats\<close>.
\<close>

theorem leave_ride_outcome:
  "(req_method q = ''POST'' \<and> rides d rid = Some r \<and> \<not> passenger_exists d rid (req_user q) \<longrightarrow>
      leave_ride d q rid =
        (Redirect ''rides_list'' (Some (Warning, ''You have not joined this ride.'')), d)
      \<and> cancel_ride d q rid =
        (Redirect ''dashboard'' (Some (Warning, ''You have not joined this ride.'')), d))
   \<and> (req_method q = ''POST'' \<and> rides d rid = Some r \<and> passenger_exists d rid (req_user q) \<longrightarrow>
      fst (leave_ride d q rid) = Redirect ''rides_list'' (Some (Success, ''You have left the ride.''))
      \<and> fst (cancel_ride d q rid) = Redirect ''dashboard'' (Some (Success, ''You have left the ride.''))
      \<and> snd (cancel_ride d q rid) = snd (leave_ride d q rid)
      \<and> map_option seats_available (rides (snd (leave_ride d q rid)) rid) = Some (seats_available r + 1)
      \<and> rides (snd (leave_ride d q rid)) =
           (rides d)(rid \<mapsto> save (r\<lparr>seats_available := seats_available r + 1\<rparr>))
      \<and> passengers (snd (leave_ride d q rid)) = delete_first (is_rp rid (req_user q)) (passengers d)
      \<and> passenger_count (snd (leave_ride d q rid)) rid + 1 = passenger_count d rid
      \<and> (unique_together d \<longrightarrow> \<not> passenger_exists (snd (leave_ride d q rid)) rid (req_user q)))
   \<and> (initial d0 \<longrightarrow>
        (\<forall>x r'. rides (run b d0 acts) x = Some r' \<longrightarrow> seats_available r' \<le> total_seats r'))"
proof (intro conjI impI)
  assume a: "req_method q = ''POST'' \<and> rides d rid = Some r \<and> \<not> passenger_exists d rid (req_user q)"
  then show "leave_ride d q rid =
        (Redirect ''rides_list'' (Some (Warning, ''You have not joined this ride.'')), d)"
    by (simp add: leave_ride_def release_seat_post)
  from a show "cancel_ride d q rid =
        (Redirect ''dashboard'' (Some (Warning, ''You have not joined this ride.'')), d)"
    by (simp add: cancel_ride_def release_seat_post)
next
  assume a: "req_method q = ''POST'' \<and> rides d rid = Some r \<and> passenger_exists d rid (req_user q)"
  then have l: "leave_ride d q rid =
      (Redirect ''rides_list'' (Some (Success, ''You have left the ride.'')),
       d\<lparr>passengers := delete_first (is_rp rid (req_user q)) (passengers d),
         rides := (rides d)(rid \<mapsto> save (r\<lparr>seats_available := seats_available r + 1\<rparr>))\<rparr>)"
    and c: "cancel_ride d q rid =
      (Redirect ''dashboard'' (Some (Success, ''You have left the ride.'')),
       d\<lparr>passengers := delete_first (is_rp rid (req_user q)) (passengers d),
         rides := (rides d)(rid \<mapsto> save (r\<lparr>seats_available := seats_available r + 1\<rparr>))\<rparr>)"
    by (simp_all add: leave_ride_def cancel_ride_def release_seat_post)
  show "fst (leave_ride d q rid) = Redirect ''rides_list'' (Some (Success, ''You have left the ride.''))"
    by (simp add: l)
  show "fst (cancel_ride d q rid) = Redirect ''dashboard'' (Some (Success, ''You have left the ride.''))"
    by (simp add: c)
  show "snd (cancel_ride d q rid) = snd (leave_ride d q rid)"
    by (simp add: l c)
  show "map_option seats_available (rides (snd (leave_ride d q rid)) rid) = Some (seats_available r + 1)"
    by (simp add: l)
  show "rides (snd (leave_ride d q rid)) =
           (rides d)(rid \<mapsto> save (r\<lparr>seats_available := seats_available r + 1\<rparr>))"
    by (simp add: l)
  show "passengers (snd (leave_ride d q rid)) = delete_first (is_rp rid (req_user q)) (passengers d)"
    by (simp add: l)
  from a have ne: "filter (is_rp rid (req_user q)) (passengers d) \<noteq> []"
    by (simp add: passenger_exists_def)
  show "passenger_count (snd (leave_ride d q rid)) rid + 1 = passenger_count d rid"
    using length_filter_delete_first [of "is_rp rid (req_user q)" "\<lambda>p. rp_ride p = rid", OF _ ne]
    by (simp add: l passenger_count_def is_rp_def)
  show "\<not> passenger_exists (snd (leave_ride d q rid)) rid (req_user q)" if "unique_together d"
    using unique_released [OF that] by (simp add: l passenger_exists_def)
next
  assume "initial d0"
  then have "seats_ok (run b d0 acts)"
    using inv_run [OF inv_initial] by (simp add: db_inv_def)
  then show "\<forall>x r'. rides (run b d0 acts) x = Some r' \<longrightarrow> seats_available r' \<le> total_seats r'"
    by (simp add: seats_ok_def)
qed

theorem leave_ride_outcome_witness:
  "req_method (post_as 2 []) = ''POST'' \<and> req_method (post_as 4 []) = ''POST''
   \<and> initial ex_db
   \<and> rides ex_small 1 = Some (ex_ride\<lparr>total_seats := 2, seats_available := 0\<rparr>)
   \<and> passenger_exists ex_small 1 2 \<and> \<not> passenger_exists ex_small 1 4
   \<and> unique_together ex_small
   \<and> fst (join_ride ex_small (ex_join 4) 1) = Redirect ''rides_list'' (Some (Warning, ''No seats available.''))
   \<and> leave_ride ex_small (post_as 4 []) 1 =
        (Redirect ''rides_list'' (Some (Warning, ''You have not joined this ride.'')), ex_small)
   \<and> fst (leave_ride ex_small (post_as 2 []) 1) =
        Redirect ''rides_list'' (Some (Success, ''You have left the ride.''))
   \<and> map_option seats_available (rides (snd (leave_ride ex_small (post_as 2 []) 1)) 1) = Some 1
   \<and> passenger_count (snd (leave_ride ex_small (post_as 2 []) 1)) 1 = 0
   \<and> \<not> passenger_exists (snd (leave_ride ex_small (post_as 2 []) 1)) 1 2
   \<and> fst (join_ride (snd (leave_ride ex_small (post_as 2 []) 1)) (ex_join 4) 1) = joined
   \<and> map_option (\<lambda>r. seats_available r \<le> total_seats r) (rides ex_small 1) = Some True"
proof -
  let ?r = "ex_ride\<lparr>total_seats := 2, seats_available := 0\<rparr>"
  have m: "req_method (post_as 2 []) = ''POST''" "req_method (post_as 4 []) = ''POST''"
    "req_user (post_as 2 []) = 2" "req_user (post_as 4 []) = 4"
    by (simp_all add: post_as_def)
  have i: "initial ex_db"
    by (simp add: initial_def ex_db_def)
  have r: "rides ex_small 1 = Some ?r"
    by (simp add: ex_small_eq)
  have p: "passenger_exists ex_small 1 2" "\<not> passenger_exists ex_small 1 4"
    "unique_together ex_small" "passenger_count ex_small 1 = 1"
    by (simp_all add: ex_small_eq passenger_exists_def is_rp_def unique_together_def passenger_count_def)
  have full: "fst (join_ride ex_small (ex_join 4) 1) =
      Redirect ''rides_list'' (Some (Warning, ''No seats available.''))"
    by (simp add: ex_small_eq join_ride_def ex_defs)
  note t2 = leave_ride_outcome [of "post_as 2 []" ex_small 1 ?r ex_db ex_builtins
      "[CreateRide (ex_create 1 ''2''), JoinRide (ex_join 2) 1]"]
  note t4 = leave_ride_outcome [of "post_as 4 []" ex_small 1 ?r ex_db ex_builtins "[]"]
  from t4 m r p have none: "leave_ride ex_small (post_as 4 []) 1 =
        (Redirect ''rides_list'' (Some (Warning, ''You have not joined this ride.'')), ex_small)"
    by simp
  from t2 m r p have left:
    "fst (leave_ride ex_small (post_as 2 []) 1) =
        Redirect ''rides_list'' (Some (Success, ''You have left the ride.''))"
    "map_option seats_available (rides (snd (leave_ride ex_small (post_as 2 []) 1)) 1) = Some 1"
    "passenger_count (snd (leave_ride ex_small (post_as 2 []) 1)) 1 = 0"
    "\<not> passenger_exists (snd (leave_ride ex_small (post_as 2 []) 1)) 1 2"
    by (simp_all add: ex_ride_def)
  from t2 i r have le: "map_option (\<lambda>r. seats_available r \<le> total_seats r) (rides ex_small 1) = Some True"
    by (simp add: ex_small_def)
  have again: "fst (join_ride (snd (leave_ride ex_small (post_as 2 []) 1)) (ex_join 4) 1) = joined"
    by (simp add: ex_small_eq view_defs ex_defs str_defs joined_def)
  from m i r p full none left le again show ?thesis
    by simp
qed

subsection \<open>Live locations\<close>

text \<open>
  Claim C6 (as amended). \<^verbatim>\<open>get_location\<close> answers a requester who is not the ride's
  creator with the authorisation error (403), whatever the target's location row says. To
  the creator asking for an existing user it answers with a 404 whenever the target has no
  location row or a row with \<open>is_sharing = False\<close>, and the two cases give the same answer
  in every state and for every requester; it never changes the database.
  \<^verbatim>\<open>update_location\<close> by a user without a join record for the ride the request names never
  creates or changes a location row; it fails with the authorisation error (403) when the
  request is well formed (all fields present, coordinates and ride id parse, the ride
  exists). Every POST to \<^verbatim>\<open>update_location\<close> in which one of the fields \<^verbatim>\<open>ride_id\<close>,
  \<^verbatim>\<open>latitude\<close>, \<^verbatim>\<open>longitude\<close> is missing or empty fails with the validation error (400,
  "Missing required fields"), and every one whose fields are present but whose latitude
  or longitude does not parse fails with the validation error (400, "Invalid
  coordinates"), whoever sends it and so also for a user who is not a passenger; neither
  changes the database.
  The claim promises the 404 also to requesters who are not the creator, and the 403 to
  every update of a user who is not a passenger; the creator check and the validation of
  the fields come first, which is the counterexample.
\<close>

theorem location_gating:
  "(req_method q = ''GET'' \<and> rides d rid = Some r \<and> creator r \<noteq> req_user q \<longrightarrow>
      get_location d q uid rid = (JsonError 403 ''Only ride creator can view locations'', d))
   \<and> (req_method q = ''GET'' \<and> rides d rid = Some r \<and> creator r = req_user q \<and>
       users d uid = Some email \<and>
       (live_locations d uid = None \<or> (\<exists>l. live_locations d uid = Some l \<and> \<not> is_sharing l)) \<longrightarrow>
      get_location d q uid rid =
        (JsonError 404 (if passenger_exists d rid uid
                        then ''Location not available or sharing disabled''
                        else ''User is not a passenger in this ride''), d))
   \<and> (\<not> is_sharing l \<longrightarrow>
      fst (get_location (d\<lparr>live_locations := (live_locations d)(uid \<mapsto> l)\<rparr>) q uid rid) =
      fst (get_location (d\<lparr>live_locations := (live_locations d)(uid := None)\<rparr>) q uid rid))
   \<and> snd (get_location d q uid rid) = d
   \<and> ((\<forall>rs x. POST q' ''ride_id'' = Some rs \<and> py_int b rs = Some x \<longrightarrow>
          \<not> passenger_exists d x (req_user q')) \<longrightarrow>
      snd (update_location b d q') = d)
   \<and> (req_method q' = ''POST'' \<and>
       POST q' ''ride_id'' = Some rs \<and> rs \<noteq> [] \<and> py_int b rs = Some rid' \<and>
       POST q' ''latitude'' = Some las \<and> las \<noteq> [] \<and> py_float b las = Some lat \<and>
       POST q' ''longitude'' = Some los \<and> los \<noteq> [] \<and> py_float b los = Some lon \<and>
       rides d rid' = Some r' \<and> \<not> passenger_exists d rid' (req_user q') \<longrightarrow>
      update_location b d q' = (JsonError 403 ''User is not a passenger in this ride'', d))
   \<and> (req_method q' = ''POST'' \<and> k \<in> {''ride_id'', ''latitude'', ''longitude''} \<and>
       (POST q' k = None \<or> POST q' k = Some []) \<longrightarrow>
      update_location b d q' = (JsonError 400 ''Missing required fields'', d))
   \<and> (req_method q' = ''POST'' \<and>
       POST q' ''ride_id'' = Some rs \<and> rs \<noteq> [] \<and>
       POST q' ''latitude'' = Some las \<and> las \<noteq> [] \<and>
       POST q' ''longitude'' = Some los \<and> los \<noteq> [] \<and>
       (py_float b las = None \<or> py_float b los = None) \<longrightarrow>
      update_location b d q' = (JsonError 400 ''Invalid coordinates'', d))"
proof (intro conjI impI)
  assume "req_method q = ''GET'' \<and> rides d rid = Some r \<and> creator r \<noteq> req_user q"
  then show "get_location d q uid rid = (JsonError 403 ''Only ride creator can view locations'', d)"
    by (simp add: get_location_def)
next
  assume a: "req_method q = ''GET'' \<and> rides d rid = Some r \<and> creator r = req_user q \<and>
       users d uid = Some email \<and>
       (live_locations d uid = None \<or> (\<exists>l. live_locations d uid = Some l \<and> \<not> is_sharing l))"
  then have "get_location d q uid rid =
     (if \<not> passenger_exists d rid uid
      then (JsonError 404 ''User is not a passenger in this ride'', d)
      else case live_locations d uid of
             None \<Rightarrow> (JsonError 404 ''Location not available or sharing disabled'', d)
           | Some loc \<Rightarrow>
               if ll_ride loc = rid \<and> is_sharing loc
               then (JsonLocation uid email (latitude loc) (longitude loc), d)
               else (JsonError 404 ''Location not available or sharing disabled'', d))"
    using get_location_creator [of q d rid r uid email] by blast
  with a show "get_location d q uid rid =
        (JsonError 404 (if passenger_exists d rid uid
                        then ''Location not available or sharing disabled''
                        else ''User is not a passenger in this ride''), d)"
    by auto
next
  assume "\<not> is_sharing l"
  then show "fst (get_location (d\<lparr>live_locations := (live_locations d)(uid \<mapsto> l)\<rparr>) q uid rid) =
      fst (get_location (d\<lparr>live_locations := (live_locations d)(uid := None)\<rparr>) q uid rid)"
    by (rule get_location_hidden)
next
  show "snd (get_location d q uid rid) = d"
    by (rule get_location_readonly)
next
  assume "\<forall>rs x. POST q' ''ride_id'' = Some rs \<and> py_int b rs = Some x \<longrightarrow>
          \<not> passenger_exists d x (req_user q')"
  then show "snd (update_location b d q') = d"
    by (intro update_location_not_passenger) blast
next
  assume "req_method q' = ''POST'' \<and>
       POST q' ''ride_id'' = Some rs \<and> rs \<noteq> [] \<and> py_int b rs = Some rid' \<and>
       POST q' ''latitude'' = Some las \<and> las \<noteq> [] \<and> py_float b las = Some lat \<and>
       POST q' ''longitude'' = Some los \<and> los \<noteq> [] \<and> py_float b los = Some lon \<and>
       rides d rid' = Some r' \<and> \<not> passenger_exists d rid' (req_user q')"
  then show "update_location b d q' = (JsonError 403 ''User is not a passenger in this ride'', d)"
    using update_location_wellformed [of q' rs b rid' las lat los lon d r'] by simp
next
  assume "req_method q' = ''POST'' \<and> k \<in> {''ride_id'', ''latitude'', ''longitude''} \<and>
       (POST q' k = None \<or> POST q' k = Some [])"
  then show "update_location b d q' = (JsonError 400 ''Missing required fields'', d)"
    using update_location_missing [of q' k b d] by blast
next
  assume "req_method q' = ''POST'' \<and>
       POST q' ''ride_id'' = Some rs \<and> rs \<noteq> [] \<and>
       POST q' ''latitude'' = Some las \<and> las \<noteq> [] \<and>
       POST q' ''longitude'' = Some los \<and> los \<noteq> [] \<and>
       (py_float b las = None \<or> py_float b los = None)"
  then show "update_location b d q' = (JsonError 400 ''Invalid coordinates'', d)"
    using update_location_malformed [of q' rs las los b d] by blast
qed

theorem location_gating_witness:
  "req_method (get_as 1) = ''GET'' \<and> req_method (get_as 4) = ''GET''
   \<and> rides ex_db2 1 = Some (ex_ride\<lparr>seats_available := 2\<rparr>)
   \<and> live_locations ex_db2 2 = None
   \<and> live_locations ex_db_hidden 2 =
        Some \<lparr>ll_ride = 1, latitude = 10, longitude = 76, is_sharing = False\<rparr>
   \<and> get_location ex_db2 (get_as 4) 2 1 =
        (JsonError 403 ''Only ride creator can view locations'', ex_db2)
   \<and> get_location ex_db2 (get_as 1) 2 1 =
        (JsonError 404 ''Location not available or sharing disabled'', ex_db2)
   \<and> get_location ex_db_hidden (get_as 1) 2 1 =
        (JsonError 404 ''Location not available or sharing disabled'', ex_db_hidden)
   \<and> \<not> passenger_exists ex_db2 1 4
   \<and> update_location ex_builtins ex_db2 (ex_update 4 ''10'') =
        (JsonError 403 ''User is not a passenger in this ride'', ex_db2)
   \<and> POST (post_as 4 [(''ride_id'', ''1''), (''latitude'', ''10'')]) ''longitude'' = None
   \<and> update_location ex_builtins ex_db2 (post_as 4 [(''ride_id'', ''1''), (''latitude'', ''10'')]) =
        (JsonError 400 ''Missing required fields'', ex_db2)
   \<and> py_float ex_builtins ''north'' = None
   \<and> update_location ex_builtins ex_db2 (ex_update 4 ''north'') =
        (JsonError 400 ''Invalid coordinates'', ex_db2)"
proof -
  let ?r = "ex_ride\<lparr>seats_available := 2\<rparr>"
  let ?m = "post_as 4 [(''ride_id'', ''1''), (''latitude'', ''10'')]"
  let ?l = "\<lparr>ll_ride = 1, latitude = 10, longitude = 76, is_sharing = False\<rparr>"
  have m: "req_method (get_as 1) = ''GET''" "req_method (get_as 4) = ''GET''"
    "req_user (get_as 1) = 1" "req_user (get_as 4) = 4"
    by (simp_all add: get_as_def)
  have r: "rides ex_db2 1 = Some ?r" "rides ex_db_hidden 1 = Some ?r"
    and u: "users ex_db2 2 = Some ''bob@eco.com''" "users ex_db_hidden 2 = Some ''bob@eco.com''"
    and l: "live_locations ex_db2 2 = None" "live_locations ex_db_hidden 2 = Some ?l"
    and p: "passenger_exists ex_db2 1 2" "passenger_exists ex_db_hidden 1 2"
      "\<not> passenger_exists ex_db2 1 4"
    by (simp_all add: ex_db_hidden_eq ex_db2_eq ex_db_def passenger_exists_def is_rp_def)
  have c: "creator ?r = 1"
    by (simp add: ex_ride_def)
  have f: "req_method (ex_update 4 ''10'') = ''POST''" "req_user (ex_update 4 ''10'') = 4"
    "POST (ex_update 4 ''10'') ''ride_id'' = Some ''1''" "py_int ex_builtins ''1'' = Some 1"
    "POST (ex_update 4 ''10'') ''latitude'' = Some ''10''" "py_float ex_builtins ''10'' = Some 10"
    "POST (ex_update 4 ''10'') ''longitude'' = Some ''76''" "py_float ex_builtins ''76'' = Some 76"
    by (simp_all add: ex_update_def post_as_def ex_builtins_def dec_int_def)
  from location_gating [of "get_as 4" ex_db2 1 ?r 2] m r c
  have "get_location ex_db2 (get_as 4) 2 1 =
        (JsonError 403 ''Only ride creator can view locations'', ex_db2)"
    by simp
  moreover from location_gating [of "get_as 1" ex_db2 1 ?r 2 "''bob@eco.com''"] m r c u l p
  have "get_location ex_db2 (get_as 1) 2 1 =
        (JsonError 404 ''Location not available or sharing disabled'', ex_db2)"
    by simp
  moreover from location_gating [of "get_as 1" ex_db_hidden 1 ?r 2 "''bob@eco.com''"] m r c u l p
  have "get_location ex_db_hidden (get_as 1) 2 1 =
        (JsonError 404 ''Location not available or sharing disabled'', ex_db_hidden)"
    by simp
  moreover from location_gating [of _ ex_db2 _ _ _ _ _ "ex_update 4 ''10''" ex_builtins
      "''1''" 1 "''10''" 10 "''76''" 76 ?r] f r p
  have "update_location ex_builtins ex_db2 (ex_update 4 ''10'') =
        (JsonError 403 ''User is not a passenger in this ride'', ex_db2)"
    by simp
  moreover have g: "req_method ?m = ''POST''" "POST ?m ''longitude'' = None"
    by (simp_all add: post_as_def)
  moreover from location_gating [where q' = ?m and b = ex_builtins and k = "''longitude''" and d = ex_db2] g
  have "update_location ex_builtins ex_db2 ?m = (JsonError 400 ''Missing required fields'', ex_db2)"
    by simp
  moreover have n: "req_method (ex_update 4 ''north'') = ''POST''"
    "POST (ex_update 4 ''north'') ''ride_id'' = Some ''1''"
    "POST (ex_update 4 ''north'') ''latitude'' = Some ''north''"
    "POST (ex_update 4 ''north'') ''longitude'' = Some ''76''"
    "py_float ex_builtins ''north'' = None"
    by (simp_all add: ex_update_def post_as_def ex_builtins_def dec_int_def)
  moreover from location_gating [where q' = "ex_update 4 ''north''" and b = ex_builtins and d = ex_db2
      and rs = "''1''" and las = "''north''" and los = "''76''"] n
  have "update_location ex_builtins ex_db2 (ex_update 4 ''north'') =
        (JsonError 400 ''Invalid coordinates'', ex_db2)"
    by simp
  ultimately show ?thesis
    using m r l p by simp
qed

theorem location_gating_counterexample:
  "\<not> passenger_exists ex_db2 1 (req_user (ex_update 4 ''north''))
   \<and> update_location ex_builtins ex_db2 (ex_update 4 ''north'') =
        (JsonError 400 ''Invalid coordinates'', ex_db2)
   \<and> live_locations ex_db2 2 = None
   \<and> get_location ex_db2 (get_as 4) 2 1 =
        (JsonError 403 ''Only ride creator can view locations'', ex_db2)"
  by (simp add: ex_db2_eq loc_defs ex_defs ex_update_def)

subsection \<open>The verification gate\<close>

text \<open>
  Claim C7 (as amended). For every user whose profile has \<open>aadhaar_verified = False\<close>,
  \<^verbatim>\<open>create_ride\<close> and \<^verbatim>\<open>join_ride\<close> answer with the redirect to the verification page and
  leave the database unchanged. \<^verbatim>\<open>driver_start_ride\<close> and \<^verbatim>\<open>passenger_confirm_start\<close> do not
  look at the profiles at all: their answer and their effect are the same whatever the
  profile table holds.
  The claim extends the gate to the two start confirmations; an unverified creator (as the
  seed command makes them) confirms the start successfully, which is the counterexample.
\<close>

theorem verification_gate:
  "(profiles d (req_user q) = Some pr \<and> \<not> aadhaar_verified pr \<longrightarrow>
      create_ride b d q =
        (Redirect ''aadhaar_verification_start''
           (Some (Warning, ''Please verify your Aadhaar to create rides.'')), d)
      \<and> join_ride d q rid =
        (Redirect ''aadhaar_verification_start''
           (Some (Warning, ''Please verify your Aadhaar to join rides.'')), d))
   \<and> driver_start_ride (d\<lparr>profiles := ps\<rparr>) q rid =
       (fst (driver_start_ride d q rid), (snd (driver_start_ride d q rid))\<lparr>profiles := ps\<rparr>)
   \<and> passenger_confirm_start (d\<lparr>profiles := ps\<rparr>) q rid =
       (fst (passenger_confirm_start d q rid), (snd (passenger_confirm_start d q rid))\<lparr>profiles := ps\<rparr>)"
  by (simp add: create_ride_def join_ride_def driver_start_ride_profiles
      passenger_confirm_start_profiles)

theorem verification_gate_witness:
  "profiles ex_db1 (req_user (ex_join 3)) = Some \<lparr>aadhaar_verified = False\<rparr>
   \<and> profiles ex_db1 (req_user (ex_create 3 ''4'')) = Some \<lparr>aadhaar_verified = False\<rparr>
   \<and> create_ride ex_builtins ex_db1 (ex_create 3 ''4'') =
        (Redirect ''aadhaar_verification_start''
           (Some (Warning, ''Please verify your Aadhaar to create rides.'')), ex_db1)
   \<and> join_ride ex_db1 (ex_join 3) 1 =
        (Redirect ''aadhaar_verification_start''
           (Some (Warning, ''Please verify your Aadhaar to join rides.'')), ex_db1)
   \<and> driver_start_ride (ex_db_seeded\<lparr>profiles := Map.empty\<rparr>) (post_as 3 []) 1 =
        (Redirect ''ride_detail''
           (Some (Info, ''You confirmed the start. Waiting for passenger confirmation.'')),
         ex_db_seeded\<lparr>rides := [1 \<mapsto> ex_ride\<lparr>creator := 3, driver_started := True\<rparr>],
                      profiles := Map.empty\<rparr>)"
proof -
  have p: "profiles ex_db1 (req_user (ex_join 3)) = Some \<lparr>aadhaar_verified = False\<rparr>"
    "profiles ex_db1 (req_user (ex_create 3 ''4'')) = Some \<lparr>aadhaar_verified = False\<rparr>"
    by (simp_all add: ex_db1_eq ex_defs)
  from verification_gate [of ex_db1 "ex_create 3 ''4''" "\<lparr>aadhaar_verified = False\<rparr>" ex_builtins] p
  have c: "create_ride ex_builtins ex_db1 (ex_create 3 ''4'') =
        (Redirect ''aadhaar_verification_start''
           (Some (Warning, ''Please verify your Aadhaar to create rides.'')), ex_db1)"
    by simp
  from verification_gate [of ex_db1 "ex_join 3" "\<lparr>aadhaar_verified = False\<rparr>" _ 1] p
  have j: "join_ride ex_db1 (ex_join 3) 1 =
        (Redirect ''aadhaar_verification_start''
           (Some (Warning, ''Please verify your Aadhaar to join rides.'')), ex_db1)"
    by simp
  from verification_gate [of ex_db_seeded "post_as 3 []" _ _ 1 Map.empty]
  have s: "driver_start_ride (ex_db_seeded\<lparr>profiles := Map.empty\<rparr>) (post_as 3 []) 1 =
        (Redirect ''ride_detail''
           (Some (Info, ''You confirmed the start. Waiting for passenger confirmation.'')),
         ex_db_seeded\<lparr>rides := [1 \<mapsto> ex_ride\<lparr>creator := 3, driver_started := True\<rparr>],
                      profiles := Map.empty\<rparr>)"
    by (simp add: ex_db_seeded_started)
  from p c j s show ?thesis by simp
qed

theorem verification_gate_counterexample:
  "profiles ex_db_seeded (req_user (post_as 3 [])) = Some \<lparr>aadhaar_verified = False\<rparr>
   \<and> map_option driver_started (rides ex_db_seeded 1) = Some False
   \<and> fst (driver_start_ride ex_db_seeded (post_as 3 []) 1) =
        Redirect ''ride_detail''
          (Some (Info, ''You confirmed the start. Waiting for passenger confirmation.''))
   \<and> map_option driver_started (rides (snd (driver_start_ride ex_db_seeded (post_as 3 []) 1)) 1) =
        Some True"
  by (simp add: ex_db_seeded_started) (simp add: ex_db_seeded_def ex_defs)

subsection \<open>Emission calculator\<close>

text \<open>
  Claim C8. \<^verbatim>\<open>calculate_co2\<close> computes \<open>solo = distance * factor / 1000\<close>,
  \<open>shared = solo / max occupants 1\<close> and \<open>saved = solo - shared\<close>, where the factor of
  the vehicle type comes from \<^verbatim>\<open>EMISSION_FACTORS\<close> (120 for a petrol car, which is also the
  default), and a ride's occupants are \<open>max (total_seats - seats_available) 1\<close>.
  Worked example: a ride of 12 km by petrol car created with 4 seats has, after one passenger
  joined, 2 occupants and yields 1.44, 0.72 and 0.72 kg; after three passengers joined it has
  4 occupants and yields 1.44, 0.36 and 1.08 kg. (Floats are idealised as rationals.)
\<close>

theorem calculate_co2_formula:
  "calculate_co2 d vt n =
     (let factor = (case map_of EMISSION_FACTORS vt of Some f \<Rightarrow> f | None \<Rightarrow> 120);
          solo = d * of_int factor / 1000;
          shared = solo / of_int (max n 1)
      in (solo, shared, solo - shared))
   \<and> map_of EMISSION_FACTORS ''car_petrol'' = Some 120
   \<and> occupant_count r = max (total_seats r - seats_available r) 1
   \<and> map_option (\<lambda>r. (total_seats r, occupant_count r,
          calculate_co2 (distance_km r) (vehicle_type r) (occupant_count r)))
        (rides (run ex_builtins ex_db [CreateRide (ex_create 1 ''4''), JoinRide (ex_join 2) 1]) 1)
      = Some (4, 2, 144 / 100, 72 / 100, 72 / 100)
   \<and> map_option (\<lambda>r. (total_seats r, occupant_count r,
          calculate_co2 (distance_km r) (vehicle_type r) (occupant_count r)))
        (rides (run ex_builtins ex_db [CreateRide (ex_create 1 ''4''), JoinRide (ex_join 2) 1,
           JoinRide (ex_join 4) 1, JoinRide (ex_join 5) 1]) 1)
      = Some (4, 4, 144 / 100, 36 / 100, 108 / 100)"
proof -
  have formula: "calculate_co2 d vt n =
     (let factor = (case map_of EMISSION_FACTORS vt of Some f \<Rightarrow> f | None \<Rightarrow> 120);
          solo = d * of_int factor / 1000;
          shared = solo / of_int (max n 1)
      in (solo, shared, solo - shared))"
    by (simp add: calculate_co2_def EMISSION_FACTORS_def Let_def)
  have car: "map_of EMISSION_FACTORS ''car_petrol'' = Some 120"
    by (simp add: EMISSION_FACTORS_def)
  have occ: "occupant_count r = max (total_seats r - seats_available r) 1"
    by (simp add: occupant_count_def)
  have one: "calculate_co2 12 ''car_petrol'' 2 = (144 / 100, 72 / 100, 72 / 100)"
    by (simp add: calculate_co2_def EMISSION_FACTORS_def Let_def)
  have three: "calculate_co2 12 ''car_petrol'' 4 = (144 / 100, 36 / 100, 108 / 100)"
    by (simp add: calculate_co2_def EMISSION_FACTORS_def Let_def)
  show ?thesis
    apply (intro conjI)
        apply (rule formula)
       apply (rule car)
      apply (rule occ)
     apply (simp only: ex_run_one_passenger option.map)
     apply (simp add: occupant_count_def ex_ride_def one)
    apply (simp only: ex_run_three_passengers option.map)
    apply (simp add: occupant_count_def ex_ride_def three)
    done
qed

subsection \<open>Location updates and the ride status\<close>

text \<open>
  Claim C10. \<^verbatim>\<open>update_location\<close> has no precondition on the status of the ride: for every
  ride, whatever its status (\<open>Created\<close>, \<open>Started\<close> or \<open>Completed\<close>), and every user with
  a join record for it, a POST that names the ride and carries coordinates that parse
  succeeds and creates or overwrites the one location row of that user (the table is keyed
  by the user); the rows of other users are untouched.
\<close>

theorem update_location_any_status:
  assumes "req_method q = ''POST''"
    and "POST q ''ride_id'' = Some rs" and "rs \<noteq> []" and "py_int b rs = Some rid"
    and "POST q ''latitude'' = Some las" and "las \<noteq> []" and "py_float b las = Some lat"
    and "POST q ''longitude'' = Some los" and "los \<noteq> []" and "py_float b los = Some lon"
    and "rides d rid = Some r" and "passenger_exists d rid (req_user q)"
  shows
    "update_location b d q =
       (JsonLocationUpdated lat lon,
        d\<lparr>live_locations := (live_locations d)
             (req_user q \<mapsto>
                \<lparr>ll_ride = rid, latitude = lat, longitude = lon,
                 is_sharing = (lower (post_get q ''is_sharing'' ''false'') = ''true'')\<rparr>)\<rparr>)
     \<and> update_location b (store_ride d rid (r\<lparr>ride_status := s\<rparr>)) q =
       (JsonLocationUpdated lat lon,
        (store_ride d rid (r\<lparr>ride_status := s\<rparr>))\<lparr>live_locations := (live_locations d)
             (req_user q \<mapsto>
                \<lparr>ll_ride = rid, latitude = lat, longitude = lon,
                 is_sharing = (lower (post_get q ''is_sharing'' ''false'') = ''true'')\<rparr>)\<rparr>)
     \<and> (\<forall>u. u \<noteq> req_user q \<longrightarrow>
           live_locations (snd (update_location b d q)) u = live_locations d u)"
proof -
  have r': "rides (store_ride d rid (r\<lparr>ride_status := s\<rparr>)) rid = Some (r\<lparr>ride_status := s\<rparr>)"
    by simp
  have l: "live_locations (store_ride d rid (r\<lparr>ride_status := s\<rparr>)) = live_locations d"
    by (simp add: store_ride_def)
  show ?thesis
    using assms(12)
    by (simp add: update_location_wellformed [OF assms(1-10) assms(11)]
        update_location_wellformed [OF assms(1-10) r'] l)
qed

theorem update_location_any_status_witness:
  "status_of 1 ex_db_completed = Some Completed
   \<and> passenger_exists ex_db_completed 1 (req_user (ex_update 2 ''10''))
   \<and> req_method (ex_update 2 ''10'') = ''POST''
   \<and> update_location ex_builtins ex_db_completed (ex_update 2 ''10'') =
        (JsonLocationUpdated 10 76,
         ex_db_completed\<lparr>live_locations :=
           [2 \<mapsto> \<lparr>ll_ride = 1, latitude = 10, longitude = 76, is_sharing = True\<rparr>]\<rparr>)"
proof -
  let ?r = "ex_ride\<lparr>seats_available := 2, driver_started := True,
        passenger_started := True, driver_ended := True, passenger_ended := True,
        ride_status := Completed\<rparr>"
  have f: "req_method (ex_update 2 ''10'') = ''POST''"
    "POST (ex_update 2 ''10'') ''ride_id'' = Some ''1''" "''1'' \<noteq> []"
    "py_int ex_builtins ''1'' = Some 1"
    "POST (ex_update 2 ''10'') ''latitude'' = Some ''10''" "''10'' \<noteq> []"
    "py_float ex_builtins ''10'' = Some 10"
    "POST (ex_update 2 ''10'') ''longitude'' = Some ''76''" "''76'' \<noteq> []"
    "py_float ex_builtins ''76'' = Some 76"
    by (simp_all add: ex_update_def post_as_def ex_builtins_def dec_int_def)
  have r: "rides ex_db_completed 1 = Some ?r"
    and p: "passenger_exists ex_db_completed 1 (req_user (ex_update 2 ''10''))"
    and l: "live_locations ex_db_completed = Map.empty"
    and s: "status_of 1 ex_db_completed = Some Completed"
    by (simp_all add: ex_db_completed_eq ex_db2_eq ex_db_def status_of_def passenger_exists_def
        is_rp_def ex_update_def post_as_def)
  have sh: "lower (post_get (ex_update 2 ''10'') ''is_sharing'' ''false'') = ''true''"
    "req_user (ex_update 2 ''10'') = 2"
    by (simp_all add: ex_update_def post_as_def post_get_def str_defs)
  from update_location_any_status [OF f r p] s p f(1) show ?thesis
    by (simp add: sh l)
qed

end
